theory Spec2Isabelle
  imports Main "HOL-Library.Word"
begin

section \<open>JavaScript strings\<close>

text \<open>
  A JavaScript string is a sequence of 16-bit code units. String literals of the source
  that are ASCII are written through \<open>js\<close>; the one non-ASCII literal (the server's
  theme-not-found message) is written out as code units.
\<close>

type_synonym code_unit = "16 word"
type_synonym jsstring = "code_unit list"

definition js :: "string \<Rightarrow> jsstring" where
  "js s = map (\<lambda>c. of_nat (of_char c)) s"

text \<open>\<open>Array.prototype.join\<close> on an array of strings.\<close>

fun join :: "jsstring \<Rightarrow> jsstring list \<Rightarrow> jsstring" where
  "join sep [] = []"
| "join sep [x] = x"
| "join sep (x # y # ys) = x @ sep @ join sep (y # ys)"

text \<open>\<open>String.prototype.includes\<close>: \<open>str_includes s t\<close> is \<open>s.includes(t)\<close>.\<close>

fun starts_with :: "jsstring \<Rightarrow> jsstring \<Rightarrow> bool" where
  "starts_with s [] = True"
| "starts_with [] (b # t) = False"
| "starts_with (a # s) (b # t) = (a = b \<and> starts_with s t)"

fun str_includes :: "jsstring \<Rightarrow> jsstring \<Rightarrow> bool" where
  "str_includes [] t = (t = [])"
| "str_includes (a # s) t = (starts_with (a # s) t \<or> str_includes s t)"

section \<open>Exceptions\<close>

text \<open>
  Every exception the two scripts can see is a value of \<open>error\<close>:
  \<^item> \<open>XsrfTokenNotFound\<close> is \<open>new Error('XSRF-TOKEN not found in cookies')\<close>, the
    session error of \<open>extractTokensFromCookies\<close>;
  \<^item> \<open>URIError\<close> is what \<open>decodeURIComponent\<close> throws;
  \<^item> \<open>SyntaxError\<close> is what \<open>JSON.parse\<close> throws;
  \<^item> \<open>FsError code\<close> is a file-system error with that \<open>err.code\<close>;
  \<^item> \<open>HttpError s\<close> is an axios rejection with \<open>err.response.status = s\<close>,
    \<open>NetworkError\<close> one without a response;
  \<^item> \<open>LoginError\<close> is any failure of the browser session (launch, navigation, the
    five-minute wait for the home page);
  \<^item> \<open>ExecError\<close> is a failed run of the external archiver.
\<close>

datatype error =
    XsrfTokenNotFound
  | URIError
  | SyntaxError
  | FsError jsstring
  | HttpError nat
  | NetworkError
  | LoginError
  | ExecError

section \<open>decodeURIComponent\<close>

text \<open>
  \<open>decodeURIComponent\<close> is a built-in of the runtime; it is written here after the
  abstract operation Decode of ECMA-262 with an empty set of preserved escapes: a code unit
  other than \<open>%\<close> is copied; \<open>%XX\<close> with a byte below \<open>0x80\<close> gives that code unit; a
  byte with \<open>n\<close> leading one bits, \<open>2 \<le> n \<le> 4\<close>, starts a UTF-8 sequence of \<open>n\<close>
  escapes, which must be a well-formed encoding of a code point (Unicode, table 3-7) and
  gives that code point in UTF-16; everything else throws URIError.
\<close>

definition hex_digit :: "code_unit \<Rightarrow> nat option" where
  "hex_digit c =
     (if 0x30 \<le> c \<and> c \<le> 0x39 then Some (unat c - 0x30)
      else if 0x41 \<le> c \<and> c \<le> 0x46 then Some (unat c - 0x41 + 10)
      else if 0x61 \<le> c \<and> c \<le> 0x66 then Some (unat c - 0x61 + 10)
      else None)"

definition ParseHexOctet :: "code_unit \<Rightarrow> code_unit \<Rightarrow> nat option" where
  "ParseHexOctet h l =
     (case hex_digit h of
        None \<Rightarrow> None
      | Some a \<Rightarrow> (case hex_digit l of None \<Rightarrow> None | Some b \<Rightarrow> Some (16 * a + b)))"

definition leading_ones :: "nat \<Rightarrow> nat" where
  "leading_ones B =
     (if B < 0x80 then 0 else if B < 0xC0 then 1 else if B < 0xE0 then 2
      else if B < 0xF0 then 3 else if B < 0xF8 then 4 else if B < 0xFC then 5
      else if B < 0xFE then 6 else if B < 0xFF then 7 else 8)"

text \<open>The \<open>j\<close> escapes \<open>%XX\<close> that continue a sequence, and the rest of the string.\<close>

fun continuation :: "nat \<Rightarrow> jsstring \<Rightarrow> (nat list \<times> jsstring) option" where
  "continuation 0 s = Some ([], s)"
| "continuation (Suc j) (p # h # l # rest) =
     (if p \<noteq> 0x25 then None
      else (case ParseHexOctet h l of
              None \<Rightarrow> None
            | Some b \<Rightarrow>
                (case continuation j rest of
                   None \<Rightarrow> None
                 | Some (bs, r) \<Rightarrow> Some (b # bs, r))))"
| "continuation (Suc j) s = None"

definition cont_byte :: "nat \<Rightarrow> bool" where
  "cont_byte b = (0x80 \<le> b \<and> b \<le> 0xBF)"

fun valid_utf8 :: "nat list \<Rightarrow> bool" where
  "valid_utf8 [a, b] = (0xC2 \<le> a \<and> a \<le> 0xDF \<and> cont_byte b)"
| "valid_utf8 [a, b, c] =
     ((a = 0xE0 \<and> 0xA0 \<le> b \<and> b \<le> 0xBF
       \<or> 0xE1 \<le> a \<and> a \<le> 0xEC \<and> cont_byte b
       \<or> a = 0xED \<and> 0x80 \<le> b \<and> b \<le> 0x9F
       \<or> 0xEE \<le> a \<and> a \<le> 0xEF \<and> cont_byte b)
      \<and> cont_byte c)"
| "valid_utf8 [a, b, c, d] =
     ((a = 0xF0 \<and> 0x90 \<le> b \<and> b \<le> 0xBF
       \<or> 0xF1 \<le> a \<and> a \<le> 0xF3 \<and> cont_byte b
       \<or> a = 0xF4 \<and> 0x80 \<le> b \<and> b \<le> 0x8F)
      \<and> cont_byte c \<and> cont_byte d)"
| "valid_utf8 bs = False"

fun utf8_code_point :: "nat list \<Rightarrow> nat" where
  "utf8_code_point [a, b] = (a mod 0x20) * 0x40 + b mod 0x40"
| "utf8_code_point [a, b, c] = (a mod 0x10) * 0x1000 + (b mod 0x40) * 0x40 + c mod 0x40"
| "utf8_code_point [a, b, c, d] =
     (a mod 8) * 0x40000 + (b mod 0x40) * 0x1000 + (c mod 0x40) * 0x40 + d mod 0x40"
| "utf8_code_point bs = 0"

definition UTF16EncodeCodePoint :: "nat \<Rightarrow> jsstring" where
  "UTF16EncodeCodePoint cp =
     (if cp \<le> 0xFFFF then [of_nat cp]
      else [of_nat ((cp - 0x10000) div 0x400 + 0xD800),
            of_nat ((cp - 0x10000) mod 0x400 + 0xDC00)])"

lemma continuation_length:
  "continuation j s = Some (bs, r) \<Longrightarrow> length s = length r + 3 * j"
proof (induction j s arbitrary: bs r rule: continuation.induct)
  case (1 s)
  then show ?case by simp
next
  case (2 j p h l rest)
  then show ?case
    by (auto split: if_splits option.splits)
qed simp_all

function Decode :: "jsstring \<Rightarrow> error + jsstring" where
  "Decode [] = Inr []"
| "Decode (C # s) =
     (if C \<noteq> 0x25 then
        (case Decode s of Inl e \<Rightarrow> Inl e | Inr R \<Rightarrow> Inr (C # R))
      else
        (case s of
           h # l # rest \<Rightarrow>
             (case ParseHexOctet h l of
                None \<Rightarrow> Inl URIError
              | Some B \<Rightarrow>
                  if leading_ones B = 0 then
                    (case Decode rest of Inl e \<Rightarrow> Inl e | Inr R \<Rightarrow> Inr (of_nat B # R))
                  else if leading_ones B = 1 \<or> leading_ones B > 4 then Inl URIError
                  else
                    (case continuation (leading_ones B - 1) rest of
                       None \<Rightarrow> Inl URIError
                     | Some (bs, rest') \<Rightarrow>
                         if valid_utf8 (B # bs) then
                           (case Decode rest' of
                              Inl e \<Rightarrow> Inl e
                            | Inr R \<Rightarrow>
                                Inr (UTF16EncodeCodePoint (utf8_code_point (B # bs)) @ R))
                         else Inl URIError))
         | _ \<Rightarrow> Inl URIError))"
  by pat_completeness auto
termination
  by (relation "measure length") (auto dest: continuation_length)

definition decodeURIComponent :: "jsstring \<Rightarrow> error + jsstring" where
  "decodeURIComponent s = Decode s"

section \<open>Data model\<close>

text \<open>
  A cookie as \<open>page.cookies()\<close> returns it and \<open>cookies.json\<close> stores it. The scripts
  read only its \<open>name\<close> and its \<open>value\<close> (field \<open>val\<close>), both strings.
\<close>

record cookie_rec =
  name :: jsstring
  val :: jsstring

text \<open>
  What \<open>JSON.parse\<close> returns, as far as \<open>Array.isArray\<close> tells it apart: an array (of
  cookie records, as \<open>saveCookiesToFile\<close> writes them) or any other value.
\<close>

datatype json = JArray "cookie_rec list" | JOther

text \<open>
  The file \<open>cookies.json\<close>: missing, present but not readable (\<open>readFileSync\<close> throws
  with the given code), or present with a text.
\<close>

datatype fs_file = Missing | Unreadable jsstring | Content jsstring

text \<open>
  What the network layer hands to axios: a reply with its HTTP status and body, or no
  reply at all.
\<close>

datatype 'b reply = Reply nat 'b | NoReply

text \<open>
  The body of the reply to the upload: \<open>NoData\<close> is a falsy \<open>res.data\<close>, \<open>Data s m\<close> an
  object with the optional string properties \<open>status\<close> and \<open>message\<close>.
\<close>

datatype upload_data = NoData | Data "jsstring option" "jsstring option"

datatype theme = Theme (theme_id: jsstring) (theme_name: jsstring)

text \<open>
  The effects of a run, in order. The requests carry the \<open>X-Xsrf-Token\<close> and \<open>Cookie\<close>
  headers they are sent with.
\<close>

datatype event =
    AccountGet jsstring jsstring
  | BrowserLogin
  | WriteCookiesFile jsstring
  | UnlinkCookiesFile
  | UnlinkZip
  | Sleep nat
  | RunArchiver
  | ThemesGet jsstring jsstring
  | ThemesUpdate jsstring jsstring

text \<open>
  The environment answers every call to the outside from the history of the run up to
  and including that call. \<open>JSON_parse\<close> and \<open>JSON_stringify\<close> are the runtime's;
  \<open>browser_login\<close> stands for the whole browser session of
  \<open>performLoginWithPuppeteer\<close> up to \<open>page.cookies()\<close>; the file operations answer
  \<open>None\<close> when they succeed and the error's code when they throw; \<open>archiver\<close> says
  whether the external tool exits with zero.
\<close>

record env =
  JSON_parse :: "jsstring \<Rightarrow> error + json"
  JSON_stringify :: "cookie_rec list \<Rightarrow> jsstring"
  account_get :: "event list \<Rightarrow> unit reply"
  browser_login :: "event list \<Rightarrow> error + cookie_rec list"
  write_cookies :: "event list \<Rightarrow> jsstring option"
  unlink_cookies :: "event list \<Rightarrow> jsstring option"
  unlink_zip :: "event list \<Rightarrow> jsstring option"
  archiver :: "event list \<Rightarrow> bool"
  themes_get :: "event list \<Rightarrow> theme list option reply"
  themes_update :: "event list \<Rightarrow> upload_data reply"

text \<open>
  The module-level variables \<open>cookie\<close> and \<open>xsrfToken\<close>, the two files the scripts own,
  and the history.
\<close>

record state =
  cookie :: jsstring
  xsrfToken :: jsstring
  cookies_file :: fs_file
  zip_exists :: bool
  trace :: "event list"

definition emit :: "event \<Rightarrow> state \<Rightarrow> state" where
  "emit e st = st\<lparr>trace := trace st @ [e]\<rparr>"

section \<open>Session cache and session derivation\<close>

definition serializeCookies :: "cookie_rec list \<Rightarrow> jsstring" where
  "serializeCookies cookies = join (js ''; '') (map (\<lambda>c. name c @ js ''='' @ val c) cookies)"

definition saveCookiesToFile :: "env \<Rightarrow> cookie_rec list \<Rightarrow> state \<Rightarrow> (error + unit) \<times> state" where
  "saveCookiesToFile env cookies st =
     (let st1 = emit (WriteCookiesFile (JSON_stringify env cookies)) st in
      case write_cookies env (trace st1) of
        Some code \<Rightarrow> (Inl (FsError code), st1)
      | None \<Rightarrow> (Inr (), st1\<lparr>cookies_file := Content (JSON_stringify env cookies)\<rparr>))"

definition existsSync :: "fs_file \<Rightarrow> bool" where
  "existsSync f = (f \<noteq> Missing)"

definition readFileSync :: "fs_file \<Rightarrow> error + jsstring" where
  "readFileSync f =
     (case f of
        Missing \<Rightarrow> Inl (FsError (js ''ENOENT''))
      | Unreadable code \<Rightarrow> Inl (FsError code)
      | Content t \<Rightarrow> Inr t)"

text \<open>
  \<open>loadCookiesFromFile\<close>: \<open>Inr None\<close> is the returned \<open>null\<close>; an \<open>Inl\<close> would be an
  exception leaving the function. The \<open>try\<close> block covers the read and the parse.
\<close>

definition loadCookiesFromFile :: "env \<Rightarrow> state \<Rightarrow> error + cookie_rec list option" where
  "loadCookiesFromFile env st =
     (if \<not> existsSync (cookies_file st) then Inr None
      else
        (case readFileSync (cookies_file st) of
           Inl e \<Rightarrow> Inr None
         | Inr txt \<Rightarrow>
             (case JSON_parse env txt of
                Inl e \<Rightarrow> Inr None
              | Inr d \<Rightarrow> (case d of JArray cs \<Rightarrow> Inr (Some cs) | JOther \<Rightarrow> Inr None))))"

definition extractTokensFromCookies :: "cookie_rec list \<Rightarrow> state \<Rightarrow> (error + unit) \<times> state" where
  "extractTokensFromCookies cookies st =
     (let st1 = st\<lparr>cookie := serializeCookies cookies\<rparr> in
      case find (\<lambda>c. name c = js ''XSRF-TOKEN'') cookies of
        None \<Rightarrow> (Inl XsrfTokenNotFound, st1)
      | Some xsrf \<Rightarrow>
          (case decodeURIComponent (val xsrf) of
             Inl e \<Rightarrow> (Inl e, st1)
           | Inr t \<Rightarrow> (Inr (), st1\<lparr>xsrfToken := t\<rparr>)))"

section \<open>Authentication\<close>

definition performLoginWithPuppeteer :: "env \<Rightarrow> state \<Rightarrow> (error + unit) \<times> state" where
  "performLoginWithPuppeteer env st =
     (let st1 = emit BrowserLogin st in
      case browser_login env (trace st1) of
        Inl e \<Rightarrow> (Inl e, st1)
      | Inr cookies \<Rightarrow>
          (case extractTokensFromCookies cookies st1 of
             (Inl e, st2) \<Rightarrow> (Inl e, st2)
           | (Inr u, st2) \<Rightarrow> saveCookiesToFile env cookies st2))"

text \<open>
  \<open>ensureAuth\<close>. The probe is sent with \<open>validateStatus: s => s < 500\<close>, so axios
  rejects a status from 500 on and a missing reply; the \<open>catch\<close> then falls through to
  the login, as it does when \<open>extractTokensFromCookies\<close> throws. An array is truthy
  also when it is empty.
\<close>

definition ensureAuth :: "env \<Rightarrow> bool \<Rightarrow> state \<Rightarrow> (error + unit) \<times> state" where
  "ensureAuth env forceLogin st =
     (if \<not> forceLogin then
        (case loadCookiesFromFile env st of
           Inl e \<Rightarrow> (Inl e, st)
         | Inr None \<Rightarrow> performLoginWithPuppeteer env st
         | Inr (Some saved) \<Rightarrow>
             (case extractTokensFromCookies saved st of
                (Inl e, st1) \<Rightarrow> performLoginWithPuppeteer env st1
              | (Inr u, st1) \<Rightarrow>
                  (let st2 = emit (AccountGet (xsrfToken st1) (cookie st1)) st1 in
                   case account_get env (trace st2) of
                     NoReply \<Rightarrow> performLoginWithPuppeteer env st2
                   | Reply s b \<Rightarrow>
                       if s < 500 then
                         (if s = 200 then (Inr (), st2)
                          else performLoginWithPuppeteer env st2)
                       else performLoginWithPuppeteer env st2)))
      else performLoginWithPuppeteer env st)"

section \<open>Packager\<close>

text \<open>
  The \<open>while\<close> loop of \<open>zipTheme\<close> that removes the old archive, started with
  \<open>retries = 5\<close>. A successful \<open>unlinkSync\<close> leaves the loop; an \<open>EBUSY\<close> with
  \<open>retries > 1\<close> waits one second and counts down; any other error, and an \<open>EBUSY\<close> with
  \<open>retries = 1\<close>, is thrown again.
\<close>

function unlink_loop :: "env \<Rightarrow> nat \<Rightarrow> state \<Rightarrow> (error + unit) \<times> state" where
  "unlink_loop env retries st =
     (if retries > 0 then
        (let st1 = emit UnlinkZip st in
         case unlink_zip env (trace st1) of
           None \<Rightarrow> (Inr (), st1\<lparr>zip_exists := False\<rparr>)
         | Some code \<Rightarrow>
             if code = js ''EBUSY'' \<and> retries > 1 then
               unlink_loop env (retries - 1) (emit (Sleep 1000) st1)
             else (Inl (FsError code), st1))
      else (Inr (), st))"
  by pat_completeness auto
termination
  by (relation "measure (\<lambda>(env, retries, st). retries)") auto

definition zipTheme :: "env \<Rightarrow> state \<Rightarrow> (error + unit) \<times> state" where
  "zipTheme env st =
     (case (if zip_exists st then unlink_loop env 5 st else (Inr (), st)) of
        (Inl e, st1) \<Rightarrow> (Inl e, st1)
      | (Inr u, st1) \<Rightarrow>
          (let st2 = emit RunArchiver st1 in
           if archiver env (trace st2) then (Inr (), st2\<lparr>zip_exists := True\<rparr>)
           else (Inl ExecError, st2)))"

section \<open>Remote theme client and orchestrator\<close>

text \<open>
  \<open>listThemes\<close> catches everything and returns \<open>[]\<close> then. axios resolves a reply
  with a status from 200 to 299 and rejects every other.
\<close>

definition listThemes :: "env \<Rightarrow> state \<Rightarrow> theme list \<times> state" where
  "listThemes env st =
     (case ensureAuth env False st of
        (Inl e, st1) \<Rightarrow> ([], st1)
      | (Inr u, st1) \<Rightarrow>
          (let st2 = emit (ThemesGet (xsrfToken st1) (cookie st1)) st1 in
           case themes_get env (trace st2) of
             NoReply \<Rightarrow> ([], st2)
           | Reply s d \<Rightarrow>
               if 200 \<le> s \<and> s < 300 then
                 (case d of Some themes \<Rightarrow> (themes, st2) | None \<Rightarrow> ([], st2))
               else ([], st2)))"

text \<open>The message the server sends when the theme id is unknown (27 code units).\<close>

definition theme_not_found :: jsstring where
  "theme_not_found =
     [0x644, 0x645, 0x20, 0x64A, 0x62A, 0x645, 0x20, 0x625, 0x64A, 0x62C, 0x627, 0x62F, 0x20,
      0x627, 0x644, 0x62B, 0x64A, 0x64A, 0x645, 0x20, 0x627, 0x644, 0x645, 0x637, 0x644,
      0x648, 0x628]"

text \<open>\<open>res.data && res.data.status === 'success'\<close>\<close>

definition is_success :: "upload_data \<Rightarrow> bool" where
  "is_success d = (case d of NoData \<Rightarrow> False | Data s m \<Rightarrow> s = Some (js ''success''))"

text \<open>\<open>res.data?.message || 'Unknown error'\<close>: the empty string is falsy.\<close>

definition errorMessage :: "upload_data \<Rightarrow> jsstring" where
  "errorMessage d =
     (case d of
        NoData \<Rightarrow> js ''Unknown error''
      | Data s m \<Rightarrow>
          (case m of
             None \<Rightarrow> js ''Unknown error''
           | Some t \<Rightarrow> if t = [] then js ''Unknown error'' else t))"

text \<open>\<open>if (fs.existsSync(COOKIES_FILE)) fs.unlinkSync(COOKIES_FILE)\<close>\<close>

definition remove_cookies_file :: "env \<Rightarrow> state \<Rightarrow> (error + unit) \<times> state" where
  "remove_cookies_file env st =
     (if existsSync (cookies_file st) then
        (let st1 = emit UnlinkCookiesFile st in
         case unlink_cookies env (trace st1) of
           Some code \<Rightarrow> (Inl (FsError code), st1)
         | None \<Rightarrow> (Inr (), st1\<lparr>cookies_file := Missing\<rparr>))
      else (Inr (), st))"

text \<open>
  \<open>uploadTheme\<close> ends in one of two ways: it returns, or it returns the promise of a
  new call of itself (\<open>return uploadTheme()\<close>, which the enclosing \<open>try\<close> does not
  await). \<open>upload_try\<close> is its \<open>try\<close> block and \<open>upload_catch\<close> its \<open>catch\<close> block, each
  up to that point; an \<open>Inl\<close> of \<open>upload_try\<close> is caught, an \<open>Inl\<close> of \<open>upload_catch\<close>
  rejects the promise of \<open>uploadTheme\<close>.
\<close>

datatype next_step = Finished | Again

definition upload_try :: "env \<Rightarrow> state \<Rightarrow> (error + next_step) \<times> state" where
  "upload_try env st =
     (case ensureAuth env False st of
        (Inl e, st1) \<Rightarrow> (Inl e, st1)
      | (Inr u, st1) \<Rightarrow>
          (case zipTheme env (emit (Sleep 500) st1) of
             (Inl e, st2) \<Rightarrow> (Inl e, st2)
           | (Inr u, st2) \<Rightarrow>
               (let st3 = emit (ThemesUpdate (xsrfToken st2) (cookie st2)) st2 in
                case themes_update env (trace st3) of
                  NoReply \<Rightarrow> (Inl NetworkError, st3)
                | Reply s d \<Rightarrow>
                    if \<not> (200 \<le> s \<and> s < 300) then (Inl (HttpError s), st3)
                    else if is_success d then (Inr Finished, st3)
                    else if str_includes (errorMessage d) theme_not_found then
                      (case listThemes env st3 of (ts, st4) \<Rightarrow> (Inr Finished, st4))
                    else
                      (case remove_cookies_file env st3 of
                         (Inl e, st4) \<Rightarrow> (Inl e, st4)
                       | (Inr u, st4) \<Rightarrow>
                           (case ensureAuth env True st4 of
                              (Inl e, st5) \<Rightarrow> (Inl e, st5)
                            | (Inr u, st5) \<Rightarrow> (Inr Again, st5))))))"

definition upload_catch :: "env \<Rightarrow> error \<Rightarrow> state \<Rightarrow> (error + next_step) \<times> state" where
  "upload_catch env err st =
     (if err = HttpError 401 then
        (case ensureAuth env True st of
           (Inl e, st1) \<Rightarrow> (Inl e, st1)
         | (Inr u, st1) \<Rightarrow> (Inr Again, st1))
      else (Inr Finished, st))"

definition upload_body :: "env \<Rightarrow> state \<Rightarrow> (error + next_step) \<times> state" where
  "upload_body env st =
     (case upload_try env st of
        (Inl e, st1) \<Rightarrow> upload_catch env e st1
      | (Inr n, st1) \<Rightarrow> (Inr n, st1))"

text \<open>
  The recursion has no bound in the source, so \<open>uploadTheme\<close> is a partial function:
  \<open>None\<close> is a chain of retries that never ends.
\<close>

partial_function (option) uploadTheme :: "env \<Rightarrow> state \<Rightarrow> ((error + unit) \<times> state) option" where
  "uploadTheme env st =
     (case upload_body env st of
        (Inl e, st1) \<Rightarrow> Some (Inl e, st1)
      | (Inr Finished, st1) \<Rightarrow> Some (Inr (), st1)
      | (Inr Again, st1) \<Rightarrow> uploadTheme env st1)"

section \<open>Change watcher\<close>

text \<open>
  The watcher's two variables, with the time in milliseconds. \<open>uploadTimeout\<close> holds the
  time at which the pending timer fires; \<open>None\<close> is no live timer (the source keeps the
  handle of a timer that has fired, and \<open>clearTimeout\<close> on it does nothing). \<open>cycles\<close>
  and \<open>skipped\<close> record when the timer callback started \<open>uploadTheme\<close> and when it
  returned at once.
\<close>

record watch =
  uploadTimeout :: "nat option"
  uploadInProgress :: bool
  cycles :: "nat list"
  skipped :: "nat list"
  now :: nat

text \<open>
  What the event loop can run next: the handler of a raw event of the watcher, the
  callback of the timer, or the \<open>finally\<close> block once \<open>uploadTheme\<close> has settled.
\<close>

datatype tick = RawEvent nat | TimerFires nat | UploadSettles nat

definition on_all :: "nat \<Rightarrow> watch \<Rightarrow> watch" where
  "on_all t w = w\<lparr>uploadTimeout := Some (t + 1000), now := t\<rparr>"

definition on_timeout :: "nat \<Rightarrow> watch \<Rightarrow> watch" where
  "on_timeout t w =
     (if uploadInProgress w then w\<lparr>uploadTimeout := None, skipped := skipped w @ [t], now := t\<rparr>
      else w\<lparr>uploadTimeout := None, uploadInProgress := True, cycles := cycles w @ [t],
             now := t\<rparr>)"

definition on_settled :: "nat \<Rightarrow> watch \<Rightarrow> watch" where
  "on_settled t w = w\<lparr>uploadInProgress := False, now := t\<rparr>"

text \<open>
  A tick is possible when time does not run backwards and no timer is overdue; the timer
  fires at its own time only, and only an upload in flight can settle.
\<close>

definition not_overdue :: "watch \<Rightarrow> nat \<Rightarrow> bool" where
  "not_overdue w t = (now w \<le> t \<and> (case uploadTimeout w of None \<Rightarrow> True | Some d \<Rightarrow> t \<le> d))"

fun step :: "watch \<Rightarrow> tick \<Rightarrow> watch option" where
  "step w (RawEvent t) = (if not_overdue w t then Some (on_all t w) else None)"
| "step w (TimerFires t) =
     (if not_overdue w t \<and> uploadTimeout w = Some t then Some (on_timeout t w) else None)"
| "step w (UploadSettles t) =
     (if not_overdue w t \<and> uploadInProgress w then Some (on_settled t w) else None)"

fun run :: "watch \<Rightarrow> tick list \<Rightarrow> watch option" where
  "run w [] = Some w"
| "run w (e # es) = (case step w e of None \<Rightarrow> None | Some w' \<Rightarrow> run w' es)"

definition is_raw :: "tick \<Rightarrow> bool" where
  "is_raw e = (case e of RawEvent t \<Rightarrow> True | _ \<Rightarrow> False)"

definition watch_init :: watch where
  "watch_init = \<lparr>uploadTimeout = None, uploadInProgress = False, cycles = [], skipped = [],
                 now = 0\<rparr>"

section \<open>Start of the two scripts\<close>

text \<open>The keys of \<open>process.env\<close> the scripts read; \<open>None\<close> is an unset key.\<close>

record config =
  ZID_BASE :: "jsstring option"
  ZID_EMAIL :: "jsstring option"
  ZID_PASSWORD :: "jsstring option"
  THEME_ID :: "jsstring option"
  THEME_NAME :: "jsstring option"
  THEME_CODE :: "jsstring option"
  THEME_FOLDER :: "jsstring option"
  ZIP_EXE_PATH :: "jsstring option"

text \<open>\<open>!v\<close> for a string or \<open>undefined\<close>.\<close>

definition falsy :: "jsstring option \<Rightarrow> bool" where
  "falsy v = (v = None \<or> v = Some [])"

text \<open>
  The check at the head of each script: \<open>Exit 1\<close> is \<open>process.exit(1)\<close>, \<open>Continue\<close> is
  the script going on with the statement after the check. The state is handed through
  untouched: nothing but \<open>console.error\<close> runs before the exit.
\<close>

datatype startup = Exit nat | Continue

definition sync_startup :: "config \<Rightarrow> state \<Rightarrow> startup \<times> state" where
  "sync_startup c st =
     (if falsy (ZID_EMAIL c) \<or> falsy (ZID_PASSWORD c) \<or> falsy (THEME_ID c) then (Exit 1, st)
      else (Continue, st))"

definition list_startup :: "config \<Rightarrow> state \<Rightarrow> startup \<times> state" where
  "list_startup c st =
     (if falsy (ZID_EMAIL c) \<or> falsy (ZID_PASSWORD c) then (Exit 1, st)
      else (Continue, st))"

text \<open>The module-level variables as the scripts initialise them, on a given disk.\<close>

definition init_state :: "fs_file \<Rightarrow> bool \<Rightarrow> state" where
  "init_state f z = \<lparr>cookie = [], xsrfToken = [], cookies_file = f, zip_exists = z, trace = []\<rparr>"

section \<open>Observations and sample environments\<close>

text \<open>How often the browser login has been started, and how often the upload was sent.\<close>

definition logins :: "state \<Rightarrow> nat" where
  "logins st = length (filter (\<lambda>e. e = BrowserLogin) (trace st))"

definition is_upload :: "event \<Rightarrow> bool" where
  "is_upload e = (case e of ThemesUpdate x c \<Rightarrow> True | _ \<Rightarrow> False)"

definition uploads :: "event list \<Rightarrow> nat" where
  "uploads h = length (filter is_upload h)"

definition unlinks :: "event list \<Rightarrow> nat" where
  "unlinks h = length (filter (\<lambda>e. e = UnlinkZip) h)"

definition probes :: "event list \<Rightarrow> nat" where
  "probes h = length (filter (\<lambda>e. case e of AccountGet x c \<Rightarrow> True | _ \<Rightarrow> False) h)"

text \<open>
  The cookie set of the specification's scenario, and an environment in which everything
  works: the snapshot reads back as that cookie set, the session is valid, the login
  succeeds, no file is locked, and the server accepts the upload.
\<close>

definition good_cookies :: "cookie_rec list" where
  "good_cookies =
     [\<lparr>name = js ''XSRF-TOKEN'', val = js ''abc''\<rparr>, \<lparr>name = js ''session'', val = js ''xyz''\<rparr>]"

definition calm_env :: env where
  "calm_env =
     \<lparr>JSON_parse = (\<lambda>t. if t = js ''cookies'' then Inr (JArray good_cookies)
                          else if t = js ''stale'' then
                            Inr (JArray [\<lparr>name = js ''session'', val = js ''xyz''\<rparr>])
                          else if t = js ''{}'' then Inr JOther
                          else Inl SyntaxError),
      JSON_stringify = (\<lambda>cs. js ''cookies''),
      account_get = (\<lambda>h. Reply 200 ()),
      browser_login = (\<lambda>h. Inr good_cookies),
      write_cookies = (\<lambda>h. None),
      unlink_cookies = (\<lambda>h. None),
      unlink_zip = (\<lambda>h. None),
      archiver = (\<lambda>h. True),
      themes_get = (\<lambda>h. Reply 200 (Some [])),
      themes_update = (\<lambda>h. Reply 200 (Data (Some (js ''success'')) None))\<rparr>"

text \<open>
  Variations: a lock on the old archive that is held for five attempts to delete it and
  released then; a server that does not know the theme; the same with a session that
  passes its first check and fails every later one; and a server that refuses the first
  upload, or the first two, for another reason and accepts the next.
\<close>

definition lock5_env :: env where
  "lock5_env = calm_env\<lparr>unlink_zip := \<lambda>h. if unlinks h \<le> 5 then Some (js ''EBUSY'') else None\<rparr>"

definition unknown_theme_env :: env where
  "unknown_theme_env =
     calm_env\<lparr>themes_update := \<lambda>h. Reply 200 (Data (Some (js ''fail'')) (Some theme_not_found))\<rparr>"

definition expiring_env :: env where
  "expiring_env =
     unknown_theme_env\<lparr>account_get := \<lambda>h. if probes h \<le> 1 then Reply 200 () else Reply 403 ()\<rparr>"

definition refusing_once_env :: env where
  "refusing_once_env =
     calm_env\<lparr>themes_update := \<lambda>h.
       if uploads h \<le> 1 then Reply 200 (Data (Some (js ''fail'')) (Some (js ''other'')))
       else Reply 200 (Data (Some (js ''success'')) None)\<rparr>"

definition refusing_twice_env :: env where
  "refusing_twice_env =
     calm_env\<lparr>themes_update := \<lambda>h.
       if uploads h \<le> 2 then Reply 200 (Data (Some (js ''fail'')) (Some (js ''other'')))
       else Reply 200 (Data (Some (js ''success'')) None)\<rparr>"

text \<open>
  Further variations: a server that refuses every upload with status 422, or answers with
  status 404 and the theme-not-found message; and a snapshot that cannot be deleted.
\<close>

definition unprocessable_env :: env where
  "unprocessable_env =
     calm_env\<lparr>themes_update := \<lambda>h. Reply 422 (Data (Some (js ''fail'')) (Some (js ''other'')))\<rparr>"

definition not_found_404_env :: env where
  "not_found_404_env =
     calm_env\<lparr>themes_update := \<lambda>h. Reply 404 (Data (Some (js ''fail'')) (Some theme_not_found))\<rparr>"

definition locked_snapshot_env :: env where
  "locked_snapshot_env = refusing_once_env\<lparr>unlink_cookies := \<lambda>h. Some (js ''EPERM'')\<rparr>"

text \<open>A configuration with every key set.\<close>

definition full_config :: config where
  "full_config =
     \<lparr>ZID_BASE = Some (js ''https://web.zid.sa''),
      ZID_EMAIL = Some (js ''me@example.com''),
      ZID_PASSWORD = Some (js ''secret''),
      THEME_ID = Some (js ''42''),
      THEME_NAME = Some (js ''vineta''),
      THEME_CODE = Some (js ''vineta''),
      THEME_FOLDER = Some (js ''theme''),
      ZIP_EXE_PATH = Some (js ''7z'')\<rparr>"

section \<open>Properties of decodeURIComponent\<close>

lemma Decode_copy:
  "C \<noteq> 0x25 \<Longrightarrow> Decode (C # s) = (case Decode s of Inl e \<Rightarrow> Inl e | Inr R \<Rightarrow> Inr (C # R))"
  by simp

lemma Decode_short: "length s < 2 \<Longrightarrow> Decode (0x25 # s) = Inl URIError"
proof (cases s)
  case Nil
  then show ?thesis by simp
next
  case (Cons h t)
  assume "length s < 2"
  with Cons have "t = []" by simp
  with Cons show ?thesis by simp
qed

lemma Decode_escape:
  "Decode (0x25 # h # l # rest) =
     (case ParseHexOctet h l of
        None \<Rightarrow> Inl URIError
      | Some B \<Rightarrow>
          if leading_ones B = 0 then
            (case Decode rest of Inl e \<Rightarrow> Inl e | Inr R \<Rightarrow> Inr (of_nat B # R))
          else if leading_ones B = 1 \<or> leading_ones B > 4 then Inl URIError
          else
            (case continuation (leading_ones B - 1) rest of
               None \<Rightarrow> Inl URIError
             | Some (bs, rest') \<Rightarrow>
                 if valid_utf8 (B # bs) then
                   (case Decode rest' of
                      Inl e \<Rightarrow> Inl e
                    | Inr R \<Rightarrow> Inr (UTF16EncodeCodePoint (utf8_code_point (B # bs)) @ R))
                 else Inl URIError))"
  by simp

declare Decode.simps(2) [simp del]

lemma UTF16EncodeCodePoint_length: "length (UTF16EncodeCodePoint cp) \<le> 2"
  by (simp add: UTF16EncodeCodePoint_def)

text \<open>What one step of the loop does with a string that starts with an escape.\<close>

lemma Decode_escape_cases:
  assumes "Decode (0x25 # s) = Inr r"
  obtains u s' R where "Decode s' = Inr R" and "r = u @ R" and "length u \<le> 2"
    and "length s' + 2 \<le> length s"
proof (cases "length s < 2")
  case True
  with assms show ?thesis by (simp add: Decode_short)
next
  case False
  then obtain h l rest where s: "s = h # l # rest"
    by (cases s; cases "tl s") auto
  from assms s obtain B where B: "ParseHexOctet h l = Some B"
    by (auto simp: Decode_escape split: option.splits)
  show ?thesis
  proof (cases "leading_ones B = 0")
    case True
    with assms s B obtain R where "Decode rest = Inr R" "r = [of_nat B] @ R"
      by (auto simp: Decode_escape split: sum.splits)
    then show ?thesis using s by (intro that [of rest R "[of_nat B]"]) simp_all
  next
    case nz: False
    with assms s B have n: "\<not> (leading_ones B = 1 \<or> 4 < leading_ones B)"
      by (auto simp: Decode_escape split: if_splits)
    with nz assms s B obtain bs rest' R where
      c: "continuation (leading_ones B - 1) rest = Some (bs, rest')"
      and R: "Decode rest' = Inr R"
      and r: "r = UTF16EncodeCodePoint (utf8_code_point (B # bs)) @ R"
      by (auto simp: Decode_escape split: option.splits if_splits sum.splits)
    from c have "length rest = length rest' + 3 * (leading_ones B - 1)"
      by (rule continuation_length)
    with s have "length rest' + 2 \<le> length s" by simp
    with R r show ?thesis
      by (intro that [of rest' R "UTF16EncodeCodePoint (utf8_code_point (B # bs))"])
        (simp_all add: UTF16EncodeCodePoint_length)
  qed
qed

lemma Decode_length:
  "Decode s = Inr r \<Longrightarrow> length r \<le> length s \<and> (0x25 \<in> set s \<longrightarrow> length r < length s)"
proof (induction "length s" arbitrary: s r rule: less_induct)
  case less
  show ?case
  proof (cases s)
    case Nil
    with less.prems show ?thesis by simp
  next
    case (Cons C t)
    show ?thesis
    proof (cases "C = 0x25")
      case False
      with less.prems Cons obtain R where R: "Decode t = Inr R" and r: "r = C # R"
        by (auto simp: Decode_copy split: sum.splits)
      from less.hyps [of t R] Cons R have "length R \<le> length t \<and> (0x25 \<in> set t \<longrightarrow> length R < length t)"
        by simp
      with r Cons False show ?thesis by auto
    next
      case True
      with less.prems Cons have "Decode (0x25 # t) = Inr r" by simp
      then obtain u s' R where R: "Decode s' = Inr R" and r: "r = u @ R" and u: "length u \<le> 2"
        and s': "length s' + 2 \<le> length t"
        by (rule Decode_escape_cases)
      from less.hyps [of s' R] Cons R s' have "length R \<le> length s'" by simp
      with r u s' Cons show ?thesis by simp
    qed
  qed
qed

lemma Decode_percent_free: "0x25 \<notin> set s \<Longrightarrow> Decode s = Inr s"
  by (induction s) (auto simp: Decode_copy)

lemma Decode_error: "Decode s = Inl e \<Longrightarrow> e = URIError"
proof (induction "length s" arbitrary: s e rule: less_induct)
  case less
  show ?case
  proof (cases s)
    case Nil
    with less.prems show ?thesis by simp
  next
    case (Cons C t)
    show ?thesis
    proof (cases "C = 0x25")
      case False
      with less.prems Cons have "Decode t = Inl e"
        by (auto simp: Decode_copy split: sum.splits)
      with less.hyps [of t] Cons show ?thesis by simp
    next
      case True
      show ?thesis
      proof (cases "length t < 2")
        case True
        with \<open>C = 0x25\<close> Cons less.prems show ?thesis by (simp add: Decode_short)
      next
        case False
        then obtain h l rest where t: "t = h # l # rest"
          by (cases t; cases "tl t") auto
        have rest: "e' = URIError" if "length s' \<le> length rest" "Decode s' = Inl e'" for s' e'
          using that(2) by (rule less.hyps [rotated]) (use that(1) Cons t in simp)
        have rest': "e' = URIError"
          if "continuation j rest = Some (bs, rest')" "Decode rest' = Inl e'" for j bs rest' e'
          using continuation_length [OF that(1)] that(2) by (intro rest [of rest']) simp_all
        from less.prems Cons True t show ?thesis
          by (auto simp: Decode_escape split: option.splits if_splits sum.splits
              dest: rest [OF order_refl] rest')
      qed
    qed
  qed
qed

lemma Decode_same_iff: "Decode s = Inr r \<Longrightarrow> r = s \<longleftrightarrow> 0x25 \<notin> set s"
  using Decode_length [of s r] Decode_percent_free [of s] by auto

section \<open>Properties of the session derivation\<close>

lemma find_name_None: "k \<notin> name ` set cookies \<longleftrightarrow> find (\<lambda>c. name c = k) cookies = None"
  by (induction cookies) auto

lemma find_name_Some:
  "k \<in> name ` set cookies \<Longrightarrow>
     \<exists>x \<in> set cookies. name x = k \<and> find (\<lambda>c. name c = k) cookies = Some x"
  by (induction cookies) auto



text \<open>The rules that evaluate \<open>Decode\<close> on a given string.\<close>

lemmas eval_decode = js_def Decode_copy Decode_escape Decode_short ParseHexOctet_def hex_digit_def leading_ones_def

lemma continuation_numeral:
  "continuation (numeral k) (p # h # l # rest) =
     (if p \<noteq> 0x25 then None
      else (case ParseHexOctet h l of
              None \<Rightarrow> None
            | Some b \<Rightarrow>
                (case continuation (pred_numeral k) rest of
                   None \<Rightarrow> None
                 | Some (bs, r) \<Rightarrow> Some (b # bs, r))))"
  by (simp add: numeral_eq_Suc)

lemmas eval_utf8 = continuation_numeral continuation.simps valid_utf8.simps
  utf8_code_point.simps cont_byte_def UTF16EncodeCodePoint_def

text \<open>
  C5, as the code has it: a cookie set without a cookie named \<open>XSRF-TOKEN\<close> fails with
  the session error. A cookie set with such a cookie succeeds exactly when
  \<open>decodeURIComponent\<close> accepts the value of the first such cookie, which it does for
  every value without a percent sign, and fails with URIError otherwise.
\<close>

theorem session_derivation_outcome:
  "(js ''XSRF-TOKEN'' \<notin> name ` set cookies \<longrightarrow>
      fst (extractTokensFromCookies cookies st) = Inl XsrfTokenNotFound)
   \<and> (js ''XSRF-TOKEN'' \<in> name ` set cookies \<longrightarrow>
      (\<exists>x \<in> set cookies. name x = js ''XSRF-TOKEN''
         \<and> find (\<lambda>c. name c = js ''XSRF-TOKEN'') cookies = Some x
         \<and> (fst (extractTokensFromCookies cookies st) = Inr ()
              \<longleftrightarrow> (\<exists>t. decodeURIComponent (val x) = Inr t))
         \<and> (fst (extractTokensFromCookies cookies st) = Inl URIError
              \<longleftrightarrow> (\<forall>t. decodeURIComponent (val x) \<noteq> Inr t))
         \<and> (0x25 \<notin> set (val x) \<longrightarrow> fst (extractTokensFromCookies cookies st) = Inr ())))"
proof (intro conjI impI)
  assume "js ''XSRF-TOKEN'' \<notin> name ` set cookies"
  then show "fst (extractTokensFromCookies cookies st) = Inl XsrfTokenNotFound"
    by (simp add: extractTokensFromCookies_def find_name_None)
next
  assume "js ''XSRF-TOKEN'' \<in> name ` set cookies"
  then obtain x where x: "x \<in> set cookies" "name x = js ''XSRF-TOKEN''"
    "find (\<lambda>c. name c = js ''XSRF-TOKEN'') cookies = Some x"
    using find_name_Some by blast
  let ?r = "fst (extractTokensFromCookies cookies st)"
  have ok: "?r = Inr () \<longleftrightarrow> (\<exists>t. decodeURIComponent (val x) = Inr t)"
    using x(3) by (cases "decodeURIComponent (val x)") (simp_all add: extractTokensFromCookies_def)
  have bad: "?r = Inl URIError \<longleftrightarrow> (\<forall>t. decodeURIComponent (val x) \<noteq> Inr t)"
    using x(3) Decode_error [of "val x"]
    by (cases "decodeURIComponent (val x)")
      (simp_all add: extractTokensFromCookies_def decodeURIComponent_def)
  have free: "0x25 \<notin> set (val x) \<longrightarrow> ?r = Inr ()"
    using ok Decode_percent_free [of "val x"] by (simp add: decodeURIComponent_def)
  from x ok bad free
  show "\<exists>x \<in> set cookies. name x = js ''XSRF-TOKEN''
         \<and> find (\<lambda>c. name c = js ''XSRF-TOKEN'') cookies = Some x
         \<and> (?r = Inr () \<longleftrightarrow> (\<exists>t. decodeURIComponent (val x) = Inr t))
         \<and> (?r = Inl URIError \<longleftrightarrow> (\<forall>t. decodeURIComponent (val x) \<noteq> Inr t))
         \<and> (0x25 \<notin> set (val x) \<longrightarrow> ?r = Inr ())"
    by blast
qed

theorem session_derivation_outcome_witness:
  "js ''XSRF-TOKEN'' \<notin> name ` set [\<lparr>name = js ''session'', val = js ''xyz''\<rparr>]
   \<and> fst (extractTokensFromCookies [\<lparr>name = js ''session'', val = js ''xyz''\<rparr>]
        (init_state Missing False)) = Inl XsrfTokenNotFound
   \<and> js ''XSRF-TOKEN'' \<in> name ` set [\<lparr>name = js ''XSRF-TOKEN'', val = js ''abc''\<rparr>]
   \<and> fst (extractTokensFromCookies [\<lparr>name = js ''XSRF-TOKEN'', val = js ''abc''\<rparr>]
        (init_state Missing False)) = Inr ()"
  using session_derivation_outcome [of "[\<lparr>name = js ''session'', val = js ''xyz''\<rparr>]" "init_state Missing False"]
    session_derivation_outcome [of "[\<lparr>name = js ''XSRF-TOKEN'', val = js ''abc''\<rparr>]" "init_state Missing False"]
  by (simp add: js_def)

text \<open>
  The specification has every cookie set with an \<open>XSRF-TOKEN\<close> cookie derive a
  session: the value \<open>%\<close> is not a percent-encoding, and the derivation throws URIError.
\<close>

theorem malformed_token_counterexample:
  "js ''XSRF-TOKEN'' \<in> name ` set [\<lparr>name = js ''XSRF-TOKEN'', val = js ''%''\<rparr>]
   \<and> extractTokensFromCookies [\<lparr>name = js ''XSRF-TOKEN'', val = js ''%''\<rparr>] (init_state Missing False)
       = (Inl URIError, (init_state Missing False)\<lparr>cookie := js ''XSRF-TOKEN=%''\<rparr>)"
  by (simp add: extractTokensFromCookies_def decodeURIComponent_def serializeCookies_def eval_decode)

text \<open>
  C9, as the code has it: take the first cookie named \<open>XSRF-TOKEN\<close> of a cookie set
  that has one. When \<open>decodeURIComponent\<close> decodes its value to \<open>t\<close>, the derivation
  succeeds and the token is \<open>t\<close>, the decoded value and not the stored one; the two are
  equal exactly when the stored value has no percent sign. When \<open>decodeURIComponent\<close>
  rejects the value, the derivation throws URIError and the token keeps the value it had.
\<close>

theorem csrf_token_is_decoded_value:
  assumes "find (\<lambda>c. name c = js ''XSRF-TOKEN'') cookies = Some x"
  shows "(\<forall>t. decodeURIComponent (val x) = Inr t \<longrightarrow>
            extractTokensFromCookies cookies st
              = (Inr (), st\<lparr>cookie := serializeCookies cookies, xsrfToken := t\<rparr>)
            \<and> xsrfToken (snd (extractTokensFromCookies cookies st)) = t
            \<and> (t = val x \<longleftrightarrow> 0x25 \<notin> set (val x)))
       \<and> ((\<forall>t. decodeURIComponent (val x) \<noteq> Inr t) \<longrightarrow>
            extractTokensFromCookies cookies st
              = (Inl URIError, st\<lparr>cookie := serializeCookies cookies\<rparr>)
            \<and> xsrfToken (snd (extractTokensFromCookies cookies st)) = xsrfToken st)"
proof (intro conjI allI impI)
  fix t
  assume d: "decodeURIComponent (val x) = Inr t"
  with assms show "extractTokensFromCookies cookies st
      = (Inr (), st\<lparr>cookie := serializeCookies cookies, xsrfToken := t\<rparr>)"
    by (simp add: extractTokensFromCookies_def)
  then show "xsrfToken (snd (extractTokensFromCookies cookies st)) = t"
    by simp
  from d show "t = val x \<longleftrightarrow> 0x25 \<notin> set (val x)"
    using Decode_same_iff [of "val x" t] by (simp add: decodeURIComponent_def)
next
  assume n: "\<forall>t. decodeURIComponent (val x) \<noteq> Inr t"
  then obtain e where e: "decodeURIComponent (val x) = Inl e"
    by (cases "decodeURIComponent (val x)") auto
  then have "e = URIError"
    using Decode_error [of "val x" e] by (simp add: decodeURIComponent_def)
  with assms e show "extractTokensFromCookies cookies st
      = (Inl URIError, st\<lparr>cookie := serializeCookies cookies\<rparr>)"
    by (simp add: extractTokensFromCookies_def)
  then show "xsrfToken (snd (extractTokensFromCookies cookies st)) = xsrfToken st"
    by simp
qed

theorem csrf_token_is_decoded_value_witness:
  "xsrfToken (snd (extractTokensFromCookies
      [\<lparr>name = js ''session'', val = js ''xyz''\<rparr>, \<lparr>name = js ''XSRF-TOKEN'', val = js ''ab%3D''\<rparr>]
      ((init_state Missing False)\<lparr>xsrfToken := js ''tok''\<rparr>))) = js ''ab=''
   \<and> js ''ab='' \<noteq> js ''ab%3D''
   \<and> xsrfToken (snd (extractTokensFromCookies
      [\<lparr>name = js ''XSRF-TOKEN'', val = js ''%e2%82%ac''\<rparr>]
      ((init_state Missing False)\<lparr>xsrfToken := js ''tok''\<rparr>))) = [0x20AC]
   \<and> xsrfToken (snd (extractTokensFromCookies
      [\<lparr>name = js ''XSRF-TOKEN'', val = js ''%F0%9F%98%80''\<rparr>]
      ((init_state Missing False)\<lparr>xsrfToken := js ''tok''\<rparr>))) = [0xD83D, 0xDE00]
   \<and> xsrfToken (snd (extractTokensFromCookies
      [\<lparr>name = js ''XSRF-TOKEN'', val = js ''abc''\<rparr>]
      ((init_state Missing False)\<lparr>xsrfToken := js ''tok''\<rparr>))) = js ''abc''
   \<and> extractTokensFromCookies
      [\<lparr>name = js ''XSRF-TOKEN'', val = js ''%zz''\<rparr>]
      ((init_state Missing False)\<lparr>xsrfToken := js ''tok''\<rparr>)
     = (Inl URIError,
        (init_state Missing False)\<lparr>xsrfToken := js ''tok'', cookie := js ''XSRF-TOKEN=%zz''\<rparr>)"
proof -
  let ?s = "(init_state Missing False)\<lparr>xsrfToken := js ''tok''\<rparr>"
  let ?a = "\<lparr>name = js ''XSRF-TOKEN'', val = js ''ab%3D''\<rparr>"
  let ?b = "\<lparr>name = js ''XSRF-TOKEN'', val = js ''%e2%82%ac''\<rparr>"
  let ?c = "\<lparr>name = js ''XSRF-TOKEN'', val = js ''%F0%9F%98%80''\<rparr>"
  let ?d = "\<lparr>name = js ''XSRF-TOKEN'', val = js ''abc''\<rparr>"
  let ?e = "\<lparr>name = js ''XSRF-TOKEN'', val = js ''%zz''\<rparr>"
  have fa: "find (\<lambda>c. name c = js ''XSRF-TOKEN'') [\<lparr>name = js ''session'', val = js ''xyz''\<rparr>, ?a]
      = Some ?a"
    by (simp add: js_def)
  have fb: "find (\<lambda>c. name c = js ''XSRF-TOKEN'') [?b] = Some ?b"
    and fc: "find (\<lambda>c. name c = js ''XSRF-TOKEN'') [?c] = Some ?c"
    and fd: "find (\<lambda>c. name c = js ''XSRF-TOKEN'') [?d] = Some ?d"
    and fe: "find (\<lambda>c. name c = js ''XSRF-TOKEN'') [?e] = Some ?e"
    by simp_all
  have da: "decodeURIComponent (val ?a) = Inr (js ''ab='')"
    by (simp add: decodeURIComponent_def eval_decode)
  have db: "decodeURIComponent (val ?b) = Inr [0x20AC]"
    by (simp add: decodeURIComponent_def eval_decode eval_utf8)
  have dc: "decodeURIComponent (val ?c) = Inr [0xD83D, 0xDE00]"
    by (simp add: decodeURIComponent_def eval_decode eval_utf8)
  have dd: "decodeURIComponent (val ?d) = Inr (js ''abc'')"
    by (simp add: decodeURIComponent_def eval_decode)
  have de: "\<forall>t. decodeURIComponent (val ?e) \<noteq> Inr t"
    by (simp add: decodeURIComponent_def eval_decode)
  have a: "xsrfToken (snd (extractTokensFromCookies
      [\<lparr>name = js ''session'', val = js ''xyz''\<rparr>, ?a] ?s)) = js ''ab=''"
    using csrf_token_is_decoded_value [OF fa, of ?s] da by blast
  have b: "xsrfToken (snd (extractTokensFromCookies [?b] ?s)) = [0x20AC]"
    using csrf_token_is_decoded_value [OF fb, of ?s] db by blast
  have c: "xsrfToken (snd (extractTokensFromCookies [?c] ?s)) = [0xD83D, 0xDE00]"
    using csrf_token_is_decoded_value [OF fc, of ?s] dc by blast
  have d: "xsrfToken (snd (extractTokensFromCookies [?d] ?s)) = js ''abc''"
    using csrf_token_is_decoded_value [OF fd, of ?s] dd by blast
  have e: "extractTokensFromCookies [?e] ?s
      = (Inl URIError, ?s\<lparr>cookie := serializeCookies [?e]\<rparr>)"
    using csrf_token_is_decoded_value [OF fe, of ?s] de by blast
  have n: "js ''ab='' \<noteq> js ''ab%3D''"
    by (simp add: js_def)
  have s: "?s\<lparr>cookie := serializeCookies [?e]\<rparr>
      = (init_state Missing False)\<lparr>xsrfToken := js ''tok'', cookie := js ''XSRF-TOKEN=%zz''\<rparr>"
    by (simp add: serializeCookies_def init_state_def js_def)
  from a b c d e n s show ?thesis
    by (simp only: simp_thms)
qed

text \<open>
  The specification has the token equal the decoded value for every cookie set with an
  \<open>XSRF-TOKEN\<close> cookie. The value \<open>%\<close> has no decoding: the derivation throws, and the
  token is still the one of the session before.
\<close>

theorem stale_token_counterexample:
  "find (\<lambda>c. name c = js ''XSRF-TOKEN'') [\<lparr>name = js ''XSRF-TOKEN'', val = js ''%''\<rparr>]
     = Some \<lparr>name = js ''XSRF-TOKEN'', val = js ''%''\<rparr>
   \<and> decodeURIComponent (js ''%'') = Inl URIError
   \<and> fst (extractTokensFromCookies [\<lparr>name = js ''XSRF-TOKEN'', val = js ''%''\<rparr>]
        ((init_state Missing False)\<lparr>xsrfToken := js ''tok''\<rparr>)) = Inl URIError
   \<and> xsrfToken (snd (extractTokensFromCookies [\<lparr>name = js ''XSRF-TOKEN'', val = js ''%''\<rparr>]
        ((init_state Missing False)\<lparr>xsrfToken := js ''tok''\<rparr>))) = js ''tok''"
  by (simp add: extractTokensFromCookies_def decodeURIComponent_def eval_decode)

section \<open>Properties of the session cache\<close>

text \<open>
  C7: \<open>loadCookiesFromFile\<close> never raises. It returns the parsed cookie set when the
  file exists and its text parses to an array, and \<open>null\<close> when the file is missing,
  cannot be read, does not parse, or parses to something that is not an array.
\<close>

theorem loadCookiesFromFile_never_raises:
  "(\<exists>r. loadCookiesFromFile env st = Inr r)
   \<and> (\<forall>txt cs. cookies_file st = Content txt \<and> JSON_parse env txt = Inr (JArray cs)
         \<longrightarrow> loadCookiesFromFile env st = Inr (Some cs))
   \<and> (cookies_file st = Missing \<longrightarrow> loadCookiesFromFile env st = Inr None)
   \<and> (\<forall>code. cookies_file st = Unreadable code \<longrightarrow> loadCookiesFromFile env st = Inr None)
   \<and> (\<forall>txt e. cookies_file st = Content txt \<and> JSON_parse env txt = Inl e
         \<longrightarrow> loadCookiesFromFile env st = Inr None)
   \<and> (\<forall>txt. cookies_file st = Content txt \<and> JSON_parse env txt = Inr JOther
         \<longrightarrow> loadCookiesFromFile env st = Inr None)"
  by (simp add: loadCookiesFromFile_def existsSync_def readFileSync_def
      split: fs_file.splits sum.splits json.splits)

theorem loadCookiesFromFile_never_raises_witness:
  "loadCookiesFromFile calm_env (init_state (Content (js ''cookies'')) False) = Inr (Some good_cookies)
   \<and> loadCookiesFromFile calm_env (init_state Missing False) = Inr None
   \<and> loadCookiesFromFile calm_env (init_state (Unreadable (js ''EACCES'')) False) = Inr None
   \<and> loadCookiesFromFile calm_env (init_state (Content (js ''[{'')) False) = Inr None
   \<and> loadCookiesFromFile calm_env (init_state (Content (js ''{}'')) False) = Inr None"
  using loadCookiesFromFile_never_raises [of calm_env "init_state (Content (js ''cookies'')) False"]
    loadCookiesFromFile_never_raises [of calm_env "init_state Missing False"]
    loadCookiesFromFile_never_raises [of calm_env "init_state (Unreadable (js ''EACCES'')) False"]
    loadCookiesFromFile_never_raises [of calm_env "init_state (Content (js ''[{'')) False"]
    loadCookiesFromFile_never_raises [of calm_env "init_state (Content (js ''{}'')) False"]
  by (simp add: calm_env_def init_state_def js_def)

section \<open>Properties of ensureAuth\<close>

lemma extractTokensFromCookies_trace [simp]:
  "trace (snd (extractTokensFromCookies cs st)) = trace st"
  by (simp add: extractTokensFromCookies_def Let_def split: option.splits sum.splits)

lemma extractTokensFromCookies_file [simp]:
  "cookies_file (snd (extractTokensFromCookies cs st)) = cookies_file st"
  by (simp add: extractTokensFromCookies_def Let_def split: option.splits sum.splits)

lemma saveCookiesToFile_trace:
  "trace (snd (saveCookiesToFile env cs st)) = trace st @ [WriteCookiesFile (JSON_stringify env cs)]"
  by (simp add: saveCookiesToFile_def emit_def Let_def split: option.splits)

lemma performLogin_trace:
  "\<exists>evs. trace (snd (performLoginWithPuppeteer env st)) = trace st @ BrowserLogin # evs
         \<and> (\<forall>e \<in> set evs. \<exists>t. e = WriteCookiesFile t)"
proof (cases "browser_login env (trace st @ [BrowserLogin])")
  case (Inl e)
  then show ?thesis by (simp add: performLoginWithPuppeteer_def emit_def)
next
  case (Inr cs)
  obtain r st2 where x: "extractTokensFromCookies cs (emit BrowserLogin st) = (r, st2)"
    by (cases "extractTokensFromCookies cs (emit BrowserLogin st)")
  then have t: "trace st2 = trace st @ [BrowserLogin]"
    using extractTokensFromCookies_trace [of cs "emit BrowserLogin st"] by (simp add: emit_def)
  show ?thesis
  proof (cases r)
    case e: (Inl e)
    with Inr x t show ?thesis by (simp add: performLoginWithPuppeteer_def emit_def)
  next
    case u: (Inr u)
    with Inr x t saveCookiesToFile_trace [of env cs st2] show ?thesis
      by (simp add: performLoginWithPuppeteer_def emit_def)
  qed
qed

lemma performLogin_logins:
  "logins (snd (performLoginWithPuppeteer env st)) = logins st + 1"
proof -
  obtain evs where "trace (snd (performLoginWithPuppeteer env st)) = trace st @ BrowserLogin # evs"
    and "\<forall>e \<in> set evs. \<exists>t. e = WriteCookiesFile t"
    using performLogin_trace by blast
  moreover from this(2) have "filter (\<lambda>e. e = BrowserLogin) evs = []"
    by (auto simp: filter_empty_conv)
  ultimately show ?thesis by (simp add: logins_def)
qed

lemma logins_emit [simp]: "e \<noteq> BrowserLogin \<Longrightarrow> logins (emit e st) = logins st"
  by (simp add: logins_def emit_def)

lemma logins_extract [simp]: "logins (snd (extractTokensFromCookies cs st)) = logins st"
  by (simp add: logins_def)

lemma ensureAuth_cached:
  assumes "loadCookiesFromFile env st = Inr (Some saved)"
    and "extractTokensFromCookies saved st = (r, st1)"
  shows "ensureAuth env False st =
     (case r of
        Inl e \<Rightarrow> performLoginWithPuppeteer env st1
      | Inr u \<Rightarrow>
          if account_get env (trace (emit (AccountGet (xsrfToken st1) (cookie st1)) st1)) = Reply 200 ()
          then (Inr (), emit (AccountGet (xsrfToken st1) (cookie st1)) st1)
          else performLoginWithPuppeteer env (emit (AccountGet (xsrfToken st1) (cookie st1)) st1))"
  using assms by (auto simp: ensureAuth_def Let_def split: sum.splits reply.splits)

text \<open>
  C4: \<open>ensureAuth(false)\<close> with a cached cookie set. When the session derives from it
  and the probe of the account endpoint answers 200, the function returns after the probe
  and the browser login is not started. When the probe answers anything else (a status
  other than 200, below 500 or not, or no reply), or the derivation throws, the browser
  login is started exactly once.
\<close>

theorem ensureAuth_login_count:
  assumes "loadCookiesFromFile env st = Inr (Some saved)"
    and "extractTokensFromCookies saved st = (r, st1)"
    and "st2 = emit (AccountGet (xsrfToken st1) (cookie st1)) st1"
  shows "(r = Inr () \<and> account_get env (trace st2) = Reply 200 ()
            \<longrightarrow> ensureAuth env False st = (Inr (), st2)
                \<and> logins (snd (ensureAuth env False st)) = logins st)
       \<and> (r = Inr () \<and> account_get env (trace st2) \<noteq> Reply 200 ()
            \<longrightarrow> logins (snd (ensureAuth env False st)) = logins st + 1)
       \<and> (r \<noteq> Inr ()
            \<longrightarrow> logins (snd (ensureAuth env False st)) = logins st + 1)"
proof -
  from assms(2) have l: "logins st1 = logins st"
    using logins_extract [of saved st] by simp
  show ?thesis
    using ensureAuth_cached [OF assms(1,2)] l assms(3)
    by (cases r) (auto simp: performLogin_logins)
qed


theorem ensureAuth_login_count_witness:
  "logins (snd (ensureAuth calm_env False (init_state (Content (js ''cookies'')) False))) = 0
   \<and> logins (snd (ensureAuth (calm_env\<lparr>account_get := \<lambda>h. Reply 403 ()\<rparr>) False
         (init_state (Content (js ''cookies'')) False))) = 1
   \<and> logins (snd (ensureAuth (calm_env\<lparr>account_get := \<lambda>h. NoReply\<rparr>) False
         (init_state (Content (js ''cookies'')) False))) = 1
   \<and> logins (snd (ensureAuth calm_env False (init_state (Content (js ''stale'')) False))) = 1"
proof -
  let ?st = "init_state (Content (js ''cookies'')) False"
  let ?bad = "init_state (Content (js ''stale'')) False"
  let ?e403 = "calm_env\<lparr>account_get := \<lambda>h. Reply 403 ()\<rparr>"
  let ?enet = "calm_env\<lparr>account_get := \<lambda>h. NoReply\<rparr>"
  have l: "loadCookiesFromFile calm_env ?st = Inr (Some good_cookies)"
    "loadCookiesFromFile ?e403 ?st = Inr (Some good_cookies)"
    "loadCookiesFromFile ?enet ?st = Inr (Some good_cookies)"
    "loadCookiesFromFile calm_env ?bad = Inr (Some [\<lparr>name = js ''session'', val = js ''xyz''\<rparr>])"
    by (simp_all add: loadCookiesFromFile_def existsSync_def readFileSync_def calm_env_def
        init_state_def js_def)
  obtain st1 where x: "extractTokensFromCookies good_cookies ?st = (Inr (), st1)"
    by (simp add: extractTokensFromCookies_def good_cookies_def decodeURIComponent_def
        eval_decode)
  obtain st1' where y: "extractTokensFromCookies [\<lparr>name = js ''session'', val = js ''xyz''\<rparr>] ?bad
      = (Inl XsrfTokenNotFound, st1')"
    by (simp add: extractTokensFromCookies_def js_def)
  have z: "logins ?st = 0" "logins ?bad = 0"
    by (simp_all add: logins_def init_state_def)
  have p: "account_get calm_env h = Reply 200 ()" for h
    by (simp add: calm_env_def)
  have q: "account_get ?e403 h \<noteq> Reply 200 ()" "account_get ?enet h \<noteq> Reply 200 ()" for h
    by simp_all
  have "logins (snd (ensureAuth calm_env False ?st)) = logins ?st"
    using ensureAuth_login_count [OF l(1) x refl] p by blast
  moreover have "logins (snd (ensureAuth ?e403 False ?st)) = logins ?st + 1"
    using ensureAuth_login_count [OF l(2) x refl] q(1) by blast
  moreover have "logins (snd (ensureAuth ?enet False ?st)) = logins ?st + 1"
    using ensureAuth_login_count [OF l(3) x refl] q(2) by blast
  moreover have "logins (snd (ensureAuth calm_env False ?bad)) = logins ?bad + 1"
    using ensureAuth_login_count [OF l(4) y refl] by blast
  ultimately show ?thesis
    by (simp only: z) simp
qed

section \<open>Properties of the packager\<close>

declare unlink_loop.simps [simp del]

lemma unlinks_append [simp]: "unlinks (h @ k) = unlinks h + unlinks k"
  by (simp add: unlinks_def)

lemma unlink_loop_0 [simp]: "unlink_loop env 0 st = (Inr (), st)"
  by (simp add: unlink_loop.simps [of env 0 st])

lemma unlink_loop_attempts:
  "unlinks (trace (snd (unlink_loop env n st))) \<le> unlinks (trace st) + n"
proof (induction env n st rule: unlink_loop.induct)
  case (1 env retries st)
  show ?case
  proof (cases "retries > 0")
    case False
    then show ?thesis by simp
  next
    case True
    let ?st1 = "emit UnlinkZip st"
    show ?thesis
    proof (cases "unlink_zip env (trace ?st1)")
      case None
      with True show ?thesis
        by (simp add: unlink_loop.simps [of env retries st] emit_def unlinks_def)
    next
      case (Some code)
      show ?thesis
      proof (cases "code = js ''EBUSY'' \<and> retries > 1")
        case False
        with True Some show ?thesis
          by (auto simp: unlink_loop.simps [of env retries st] emit_def unlinks_def)
      next
        case busy: True
        from "1.IH" [OF True refl Some busy]
        have "unlinks (trace (snd (unlink_loop env (retries - 1) (emit (Sleep 1000) ?st1))))
                \<le> unlinks (trace (emit (Sleep 1000) ?st1)) + (retries - 1)" .
        moreover have "unlinks (trace (emit (Sleep 1000) ?st1)) = unlinks (trace st) + 1"
          by (simp add: emit_def) (simp add: unlinks_def)
        ultimately show ?thesis
          using True Some busy by (simp add: unlink_loop.simps [of env retries st])
      qed
    qed
  qed
qed

lemma unlink_loop_busy:
  assumes "\<forall>h. unlink_zip env h = Some (js ''EBUSY'')"
  shows "unlink_loop env 5 st =
     (Inl (FsError (js ''EBUSY'')),
      st\<lparr>trace := trace st @ [UnlinkZip, Sleep 1000, UnlinkZip, Sleep 1000, UnlinkZip,
                                Sleep 1000, UnlinkZip, Sleep 1000, UnlinkZip]\<rparr>)"
proof -
  have step: "unlink_loop env (Suc (Suc n)) s =
      unlink_loop env (Suc n) (s\<lparr>trace := trace s @ [UnlinkZip, Sleep 1000]\<rparr>)" for n s
    using assms by (simp add: unlink_loop.simps [of env "Suc (Suc n)" s] emit_def)
  have last: "unlink_loop env (Suc 0) s = (Inl (FsError (js ''EBUSY'')), s\<lparr>trace := trace s @ [UnlinkZip]\<rparr>)" for s
    using assms by (simp add: unlink_loop.simps [of env "Suc 0" s] emit_def)
  have "(5::nat) = Suc (Suc (Suc (Suc (Suc 0))))" by simp
  then show ?thesis by (simp only: step last) simp
qed

text \<open>
  C2, as the code has it: when the old archive exists, \<open>zipTheme\<close> tries to delete it at
  most five times in all. When every attempt finds it locked, there are exactly five
  attempts, one second apart (four retries after the first attempt), and the fifth
  \<open>EBUSY\<close> is thrown.
\<close>

theorem zipTheme_locked_archive:
  assumes "zip_exists st"
  shows "unlinks (trace (snd (zipTheme env st))) \<le> unlinks (trace st) + 5
     \<and> ((\<forall>h. unlink_zip env h = Some (js ''EBUSY'')) \<longrightarrow>
          zipTheme env st =
            (Inl (FsError (js ''EBUSY'')),
             st\<lparr>trace := trace st @ [UnlinkZip, Sleep 1000, UnlinkZip, Sleep 1000, UnlinkZip,
                                       Sleep 1000, UnlinkZip, Sleep 1000, UnlinkZip]\<rparr>))"
proof (intro conjI impI)
  obtain r st1 where u: "unlink_loop env 5 st = (r, st1)"
    by (cases "unlink_loop env 5 st")
  with unlink_loop_attempts [of env 5 st] have "unlinks (trace st1) \<le> unlinks (trace st) + 5"
    by simp
  with u assms show "unlinks (trace (snd (zipTheme env st))) \<le> unlinks (trace st) + 5"
    by (cases r) (simp_all add: zipTheme_def Let_def emit_def, simp_all add: unlinks_def)
next
  assume "\<forall>h. unlink_zip env h = Some (js ''EBUSY'')"
  then show "zipTheme env st =
            (Inl (FsError (js ''EBUSY'')),
             st\<lparr>trace := trace st @ [UnlinkZip, Sleep 1000, UnlinkZip, Sleep 1000, UnlinkZip,
                                       Sleep 1000, UnlinkZip, Sleep 1000, UnlinkZip]\<rparr>)"
    using assms by (simp add: zipTheme_def unlink_loop_busy)
qed

theorem zipTheme_locked_archive_witness:
  "zip_exists (init_state Missing True)
   \<and> unlinks (trace (snd (zipTheme (calm_env\<lparr>unlink_zip := \<lambda>h. Some (js ''EBUSY'')\<rparr>)
         (init_state Missing True)))) \<le> 5
   \<and> zipTheme (calm_env\<lparr>unlink_zip := \<lambda>h. Some (js ''EBUSY'')\<rparr>) (init_state Missing True) =
       (Inl (FsError (js ''EBUSY'')),
        (init_state Missing True)\<lparr>trace := [UnlinkZip, Sleep 1000, UnlinkZip, Sleep 1000,
           UnlinkZip, Sleep 1000, UnlinkZip, Sleep 1000, UnlinkZip]\<rparr>)"
proof -
  have z: "zip_exists (init_state Missing True)" by (simp add: init_state_def)
  have t: "trace (init_state Missing True) = []" by (simp add: init_state_def)
  from zipTheme_locked_archive [OF z, of "calm_env\<lparr>unlink_zip := \<lambda>h. Some (js ''EBUSY'')\<rparr>"] z t
  show ?thesis by (simp add: unlinks_def)
qed

text \<open>
  The specification has five retries after the first attempt and a failure on the sixth
  lock only. A lock that is held for five attempts and released before a sixth would then
  be waited out; the code gives up at the fifth.
\<close>

theorem lock_released_before_sixth_attempt_counterexample:
  "zipTheme lock5_env (init_state Missing True) =
     (Inl (FsError (js ''EBUSY'')),
      (init_state Missing True)\<lparr>trace := [UnlinkZip, Sleep 1000, UnlinkZip, Sleep 1000,
         UnlinkZip, Sleep 1000, UnlinkZip, Sleep 1000, UnlinkZip]\<rparr>)
   \<and> unlinks [UnlinkZip, Sleep 1000, UnlinkZip, Sleep 1000, UnlinkZip, Sleep 1000, UnlinkZip,
        Sleep 1000, UnlinkZip] = 5"
  by (simp add: zipTheme_def lock5_env_def init_state_def unlink_loop.simps emit_def unlinks_def)

section \<open>Properties of uploadTheme\<close>

lemma ensureAuth_trace:
  "\<exists>evs. trace (snd (ensureAuth env f st)) = trace st @ evs
         \<and> (\<forall>e \<in> set evs. \<not> is_upload e \<and> e \<noteq> UnlinkCookiesFile)"
proof -
  have login: "\<exists>evs. trace (snd (performLoginWithPuppeteer env s)) = trace s @ evs
         \<and> (\<forall>e \<in> set evs. \<not> is_upload e \<and> e \<noteq> UnlinkCookiesFile)" for s
  proof -
    obtain evs where "trace (snd (performLoginWithPuppeteer env s)) = trace s @ BrowserLogin # evs"
      and "\<forall>e \<in> set evs. \<exists>t. e = WriteCookiesFile t"
      using performLogin_trace by blast
    then show ?thesis
      by (intro exI [of _ "BrowserLogin # evs"]) (auto simp: is_upload_def)
  qed
  have probe: "\<exists>evs. trace (snd (performLoginWithPuppeteer env (emit (AccountGet x c) s))) = trace s @ evs
         \<and> (\<forall>e \<in> set evs. \<not> is_upload e \<and> e \<noteq> UnlinkCookiesFile)" for s x c
  proof -
    obtain evs where "trace (snd (performLoginWithPuppeteer env (emit (AccountGet x c) s)))
        = trace (emit (AccountGet x c) s) @ evs"
      and "\<forall>e \<in> set evs. \<not> is_upload e \<and> e \<noteq> UnlinkCookiesFile"
      using login by blast
    then show ?thesis
      by (intro exI [of _ "AccountGet x c # evs"]) (auto simp: is_upload_def emit_def)
  qed
  show ?thesis
  proof (cases "\<not> f \<and> (\<exists>saved. loadCookiesFromFile env st = Inr (Some saved))")
    case False
    then have "ensureAuth env f st = performLoginWithPuppeteer env st
        \<or> (\<exists>e. ensureAuth env f st = (Inl e, st))"
      by (auto simp: ensureAuth_def split: sum.splits option.splits)
    with login [of st] show ?thesis by auto
  next
    case True
    then obtain saved where f: "\<not> f" and l: "loadCookiesFromFile env st = Inr (Some saved)" by blast
    obtain r st1 where x: "extractTokensFromCookies saved st = (r, st1)"
      by (cases "extractTokensFromCookies saved st")
    then have t: "trace st1 = trace st"
      using extractTokensFromCookies_trace [of saved st] by simp
    from f ensureAuth_cached [OF l x] login [of st1] probe [of "xsrfToken st1" "cookie st1" st1] t
    show ?thesis
      by (cases r) (auto simp: emit_def is_upload_def)
  qed
qed

lemma saveCookiesToFile_file:
  "cookies_file st \<noteq> Missing \<Longrightarrow> cookies_file (snd (saveCookiesToFile env cs st)) \<noteq> Missing"
  by (simp add: saveCookiesToFile_def emit_def Let_def split: option.splits)

lemma performLogin_file:
  "cookies_file st \<noteq> Missing \<Longrightarrow> cookies_file (snd (performLoginWithPuppeteer env st)) \<noteq> Missing"
proof -
  assume m: "cookies_file st \<noteq> Missing"
  show ?thesis
  proof (cases "browser_login env (trace st @ [BrowserLogin])")
    case (Inl e)
    with m show ?thesis by (simp add: performLoginWithPuppeteer_def emit_def)
  next
    case (Inr cs)
    obtain r st2 where x: "extractTokensFromCookies cs (emit BrowserLogin st) = (r, st2)"
      by (cases "extractTokensFromCookies cs (emit BrowserLogin st)")
    then have "cookies_file st2 = cookies_file st"
      using extractTokensFromCookies_file [of cs "emit BrowserLogin st"] by (simp add: emit_def)
    with m Inr x saveCookiesToFile_file [of st2 env cs] show ?thesis
      by (cases r) (simp_all add: performLoginWithPuppeteer_def emit_def)
  qed
qed

lemma ensureAuth_file:
  assumes "cookies_file st \<noteq> Missing"
  shows "cookies_file (snd (ensureAuth env f st)) \<noteq> Missing"
proof (cases "\<not> f \<and> (\<exists>saved. loadCookiesFromFile env st = Inr (Some saved))")
  case False
  then have "ensureAuth env f st = performLoginWithPuppeteer env st
      \<or> (\<exists>e. ensureAuth env f st = (Inl e, st))"
    by (auto simp: ensureAuth_def split: sum.splits option.splits)
  with assms performLogin_file [of st env] show ?thesis by auto
next
  case True
  then obtain saved where f: "\<not> f" and l: "loadCookiesFromFile env st = Inr (Some saved)" by blast
  obtain r st1 where x: "extractTokensFromCookies saved st = (r, st1)"
    by (cases "extractTokensFromCookies saved st")
  then have t: "cookies_file st1 \<noteq> Missing"
    using extractTokensFromCookies_file [of saved st] assms by simp
  from f ensureAuth_cached [OF l x] t performLogin_file [of st1 env]
    performLogin_file [of "emit (AccountGet (xsrfToken st1) (cookie st1)) st1" env]
  show ?thesis
    by (cases r) (auto simp: emit_def)
qed

lemma listThemes_state:
  "\<exists>evs. trace (snd (listThemes env st)) = trace (snd (ensureAuth env False st)) @ evs
      \<and> (\<forall>e \<in> set evs. \<exists>x c. e = ThemesGet x c)
      \<and> cookies_file (snd (listThemes env st)) = cookies_file (snd (ensureAuth env False st))
      \<and> logins (snd (listThemes env st)) = logins (snd (ensureAuth env False st))"
proof -
  obtain r st1 where a: "ensureAuth env False st = (r, st1)"
    by (cases "ensureAuth env False st")
  show ?thesis
  proof (cases r)
    case (Inl e)
    with a show ?thesis by (simp add: listThemes_def)
  next
    case (Inr u)
    with a have "snd (listThemes env st) = emit (ThemesGet (xsrfToken st1) (cookie st1)) st1"
      by (simp add: listThemes_def Let_def split: reply.splits option.splits)
    with a show ?thesis by (simp add: emit_def logins_def)
  qed
qed

lemma upload_try_refused:
  assumes "ensureAuth env False st = (Inr (), st1)"
    and "zipTheme env (emit (Sleep 500) st1) = (Inr (), st2)"
    and "st3 = emit (ThemesUpdate (xsrfToken st2) (cookie st2)) st2"
    and "themes_update env (trace st3) = Reply s d"
    and "200 \<le> s" and "s < 300"
    and "\<not> is_success d"
  shows "upload_try env st =
     (if str_includes (errorMessage d) theme_not_found then (Inr Finished, snd (listThemes env st3))
      else
        (case remove_cookies_file env st3 of
           (Inl e, st4) \<Rightarrow> (Inl e, st4)
         | (Inr u, st4) \<Rightarrow>
             (case ensureAuth env True st4 of
                (Inl e, st5) \<Rightarrow> (Inl e, st5)
              | (Inr u, st5) \<Rightarrow> (Inr Again, st5))))"
  using assms by (simp add: upload_try_def Let_def split: prod.splits)


lemma upload_body_rejected:
  assumes "ensureAuth env False st = (Inr (), st1)"
    and "zipTheme env (emit (Sleep 500) st1) = (Inr (), st2)"
    and "st3 = emit (ThemesUpdate (xsrfToken st2) (cookie st2)) st2"
    and "themes_update env (trace st3) = Reply s d"
    and "\<not> (200 \<le> s \<and> s < 300)"
    and "s \<noteq> 401"
  shows "upload_body env st = (Inr Finished, st3)"
proof -
  from assms(1-5) have "upload_try env st = (Inl (HttpError s), st3)"
    by (simp add: upload_try_def Let_def)
  with assms(6) show ?thesis
    by (simp add: upload_body_def upload_catch_def)
qed

lemma remove_cookies_file_error:
  assumes "remove_cookies_file env st = (Inl e, st')"
  shows "(\<exists>code. e = FsError code) \<and> trace st' = trace st @ [UnlinkCookiesFile]
    \<and> cookies_file st' = cookies_file st"
  using assms
  by (auto simp: remove_cookies_file_def emit_def Let_def split: if_splits option.splits)

lemma listThemes_trace:
  "trace (snd (listThemes env st)) =
     trace (snd (ensureAuth env False st))
     @ (if fst (ensureAuth env False st) = Inr ()
        then [ThemesGet (xsrfToken (snd (ensureAuth env False st)))
                (cookie (snd (ensureAuth env False st)))]
        else [])"
proof -
  obtain r st1 where a: "ensureAuth env False st = (r, st1)"
    by (cases "ensureAuth env False st")
  show ?thesis
  proof (cases r)
    case (Inl e)
    with a show ?thesis by (simp add: listThemes_def)
  next
    case (Inr u)
    with a have "snd (listThemes env st) = emit (ThemesGet (xsrfToken st1) (cookie st1)) st1"
      by (simp add: listThemes_def Let_def split: reply.splits option.splits)
    with a Inr show ?thesis by (simp add: emit_def)
  qed
qed

lemma ensureAuth_cached_logins:
  assumes "loadCookiesFromFile env st = Inr (Some saved)"
    and "extractTokensFromCookies saved st = (r, st1)"
  shows "logins (snd (ensureAuth env False st)) =
     (if r = Inr () \<and> account_get env (trace (emit (AccountGet (xsrfToken st1) (cookie st1)) st1))
          = Reply 200 ()
      then logins st else logins st + 1)"
proof -
  from assms(2) have l: "logins st1 = logins st"
    using logins_extract [of saved st] by simp
  show ?thesis
    using ensureAuth_cached [OF assms] l
    by (cases r) (auto simp: performLogin_logins)
qed

lemma ensureAuth_no_cache_logins:
  assumes "loadCookiesFromFile env st = Inr None"
  shows "logins (snd (ensureAuth env False st)) = logins st + 1"
  using assms by (simp add: ensureAuth_def performLogin_logins)

text \<open>The rules that evaluate a run in a given environment.\<close>

lemmas eval_run = upload_body_def upload_try_def upload_catch_def ensureAuth_def
  loadCookiesFromFile_def existsSync_def readFileSync_def extractTokensFromCookies_def
  serializeCookies_def decodeURIComponent_def performLoginWithPuppeteer_def
  saveCookiesToFile_def zipTheme_def listThemes_def remove_cookies_file_def
  is_success_def errorMessage_def emit_def init_state_def calm_env_def good_cookies_def
  theme_not_found_def uploads_def is_upload_def logins_def probes_def unlink_loop.simps
  Let_def

text \<open>
  C6, as the code has it: when the upload is answered with a status from 200 to 299 and
  a failure whose message contains the theme-not-found marker, \<open>uploadTheme\<close> calls
  \<open>listThemes\<close> and returns. \<open>listThemes\<close> runs \<open>ensureAuth(false)\<close> and, when that
  succeeds, sends the listing request. Nothing after the reply sends the upload again or
  deletes the snapshot, and a snapshot that exists still exists afterwards. There is no
  forced login: the browser login stays away when the cached session passes its check in
  \<open>listThemes\<close>, and runs once when it fails that check or when there is no cached
  session. The same failure with a status outside 200 to 299, other than 401, is caught
  and logged: the cycle ends where the upload was sent, and no listing is called.
\<close>

theorem theme_not_found_lists_and_stops:
  assumes "ensureAuth env False st = (Inr (), st1)"
    and "zipTheme env (emit (Sleep 500) st1) = (Inr (), st2)"
    and "st3 = emit (ThemesUpdate (xsrfToken st2) (cookie st2)) st2"
    and "themes_update env (trace st3) = Reply s d"
    and "\<not> is_success d"
    and "str_includes (errorMessage d) theme_not_found"
  shows "(200 \<le> s \<and> s < 300 \<longrightarrow>
       uploadTheme env st = Some (Inr (), snd (listThemes env st3))
       \<and> trace (snd (listThemes env st3)) =
           trace (snd (ensureAuth env False st3))
           @ (if fst (ensureAuth env False st3) = Inr ()
              then [ThemesGet (xsrfToken (snd (ensureAuth env False st3)))
                      (cookie (snd (ensureAuth env False st3)))]
              else [])
       \<and> (\<exists>evs. trace (snd (listThemes env st3)) = trace st3 @ evs
              \<and> (\<forall>e \<in> set evs. \<not> is_upload e \<and> e \<noteq> UnlinkCookiesFile))
       \<and> (cookies_file st3 \<noteq> Missing \<longrightarrow> cookies_file (snd (listThemes env st3)) \<noteq> Missing)
       \<and> (\<forall>saved r st1'.
             loadCookiesFromFile env st3 = Inr (Some saved)
             \<and> extractTokensFromCookies saved st3 = (r, st1')
             \<longrightarrow> (r = Inr ()
                  \<and> account_get env (trace (emit (AccountGet (xsrfToken st1') (cookie st1')) st1'))
                      = Reply 200 ()
                  \<longrightarrow> logins (snd (listThemes env st3)) = logins st3)
               \<and> (r \<noteq> Inr ()
                  \<or> account_get env (trace (emit (AccountGet (xsrfToken st1') (cookie st1')) st1'))
                      \<noteq> Reply 200 ()
                  \<longrightarrow> logins (snd (listThemes env st3)) = logins st3 + 1))
       \<and> (loadCookiesFromFile env st3 = Inr None
            \<longrightarrow> logins (snd (listThemes env st3)) = logins st3 + 1))
     \<and> (\<not> (200 \<le> s \<and> s < 300) \<and> s \<noteq> 401 \<longrightarrow> uploadTheme env st = Some (Inr (), st3))"
proof -
  have ok: "uploadTheme env st = Some (Inr (), snd (listThemes env st3))"
    if "200 \<le> s \<and> s < 300"
  proof -
    from that upload_try_refused [OF assms(1-4) _ _ assms(5)] assms(6)
    have "upload_body env st = (Inr Finished, snd (listThemes env st3))"
      by (simp add: upload_body_def)
    then show ?thesis
      by (subst uploadTheme.simps) simp
  qed
  have caught: "uploadTheme env st = Some (Inr (), st3)"
    if "\<not> (200 \<le> s \<and> s < 300) \<and> s \<noteq> 401"
  proof -
    from that upload_body_rejected [OF assms(1-4)]
    have "upload_body env st = (Inr Finished, st3)"
      by simp
    then show ?thesis
      by (subst uploadTheme.simps) simp
  qed
  have quiet: "\<exists>evs. trace (snd (listThemes env st3)) = trace st3 @ evs
      \<and> (\<forall>e \<in> set evs. \<not> is_upload e \<and> e \<noteq> UnlinkCookiesFile)"
  proof -
    obtain evs where a: "trace (snd (ensureAuth env False st3)) = trace st3 @ evs"
      and b: "\<forall>e \<in> set evs. \<not> is_upload e \<and> e \<noteq> UnlinkCookiesFile"
      using ensureAuth_trace [of env False st3] by blast
    obtain evs' where c: "trace (snd (listThemes env st3))
        = trace (snd (ensureAuth env False st3)) @ evs'"
      and d: "\<forall>e \<in> set evs'. \<exists>x c. e = ThemesGet x c"
      using listThemes_state [of env st3] by blast
    from a b c d show ?thesis
      by (intro exI [of _ "evs @ evs'"]) (auto simp: is_upload_def)
  qed
  have kept: "cookies_file st3 \<noteq> Missing \<longrightarrow> cookies_file (snd (listThemes env st3)) \<noteq> Missing"
    using listThemes_state [of env st3] ensureAuth_file [of st3 env False] by auto
  have same: "logins (snd (listThemes env st3)) = logins (snd (ensureAuth env False st3))"
    using listThemes_state [of env st3] by auto
  have cached: "(r = Inr ()
        \<and> account_get env (trace (emit (AccountGet (xsrfToken st1') (cookie st1')) st1'))
            = Reply 200 ()
        \<longrightarrow> logins (snd (listThemes env st3)) = logins st3)
      \<and> (r \<noteq> Inr ()
        \<or> account_get env (trace (emit (AccountGet (xsrfToken st1') (cookie st1')) st1'))
            \<noteq> Reply 200 ()
        \<longrightarrow> logins (snd (listThemes env st3)) = logins st3 + 1)"
    if "loadCookiesFromFile env st3 = Inr (Some saved)
        \<and> extractTokensFromCookies saved st3 = (r, st1')" for saved r st1'
    using that same ensureAuth_cached_logins [of env st3 saved r st1'] by auto
  have none: "loadCookiesFromFile env st3 = Inr None
      \<longrightarrow> logins (snd (listThemes env st3)) = logins st3 + 1"
    using same ensureAuth_no_cache_logins [of env st3] by simp
  from ok caught quiet kept cached none listThemes_trace [of env st3] show ?thesis
    by (intro conjI impI allI) blast+
qed

theorem theme_not_found_lists_and_stops_witness:
  "map_option fst (uploadTheme unknown_theme_env (init_state (Content (js ''cookies'')) False))
     = Some (Inr ())
   \<and> map_option (uploads \<circ> trace \<circ> snd)
        (uploadTheme unknown_theme_env (init_state (Content (js ''cookies'')) False)) = Some 1
   \<and> map_option (logins \<circ> snd)
        (uploadTheme unknown_theme_env (init_state (Content (js ''cookies'')) False)) = Some 0
   \<and> map_option (cookies_file \<circ> snd)
        (uploadTheme unknown_theme_env (init_state (Content (js ''cookies'')) False))
       = Some (Content (js ''cookies''))
   \<and> map_option (last \<circ> trace \<circ> snd)
        (uploadTheme unknown_theme_env (init_state (Content (js ''cookies'')) False))
       = Some (ThemesGet (js ''abc'') (js ''XSRF-TOKEN=abc; session=xyz''))
   \<and> map_option (logins \<circ> snd)
        (uploadTheme expiring_env (init_state (Content (js ''cookies'')) False)) = Some 1
   \<and> map_option (trace \<circ> snd)
        (uploadTheme not_found_404_env (init_state (Content (js ''cookies'')) False))
       = Some [AccountGet (js ''abc'') (js ''XSRF-TOKEN=abc; session=xyz''), Sleep 500,
               RunArchiver, ThemesUpdate (js ''abc'') (js ''XSRF-TOKEN=abc; session=xyz'')]"
proof -
  let ?s = "init_state (Content (js ''cookies'')) False"
  let ?d = "Data (Some (js ''fail'')) (Some theme_not_found)"
  have d: "\<not> is_success ?d"
    by (simp add: is_success_def js_def)
  have e: "str_includes (errorMessage ?d) theme_not_found"
    by (simp add: errorMessage_def theme_not_found_def)
  have one: "map_option fst (uploadTheme unknown_theme_env ?s) = Some (Inr ())
    \<and> map_option (uploads \<circ> trace \<circ> snd) (uploadTheme unknown_theme_env ?s) = Some 1
    \<and> map_option (logins \<circ> snd) (uploadTheme unknown_theme_env ?s) = Some 0
    \<and> map_option (cookies_file \<circ> snd) (uploadTheme unknown_theme_env ?s)
        = Some (Content (js ''cookies''))
    \<and> map_option (last \<circ> trace \<circ> snd) (uploadTheme unknown_theme_env ?s)
        = Some (ThemesGet (js ''abc'') (js ''XSRF-TOKEN=abc; session=xyz''))"
  proof -
    let ?E = unknown_theme_env
    define st1 where "st1 = snd (ensureAuth ?E False ?s)"
    define st2 where "st2 = snd (zipTheme ?E (emit (Sleep 500) st1))"
    define st3 where "st3 = emit (ThemesUpdate (xsrfToken st2) (cookie st2)) st2"
    have a: "ensureAuth ?E False ?s = (Inr (), st1)"
      unfolding st1_def by (simp add: unknown_theme_env_def eval_run eval_decode)
    have b: "zipTheme ?E (emit (Sleep 500) st1) = (Inr (), st2)"
      unfolding st2_def st1_def by (simp add: unknown_theme_env_def eval_run eval_decode)
    have c: "themes_update ?E (trace st3) = Reply 200 ?d"
      by (simp add: unknown_theme_env_def)
    from theme_not_found_lists_and_stops [OF a b st3_def c d e]
    have r: "uploadTheme ?E ?s = Some (Inr (), snd (listThemes ?E st3))"
      by simp
    have v: "uploads (trace (snd (listThemes ?E st3))) = 1"
      "logins (snd (listThemes ?E st3)) = 0"
      "cookies_file (snd (listThemes ?E st3)) = Content (js ''cookies'')"
      "last (trace (snd (listThemes ?E st3)))
        = ThemesGet (js ''abc'') (js ''XSRF-TOKEN=abc; session=xyz'')"
      unfolding st3_def st2_def st1_def
      by (simp_all add: unknown_theme_env_def eval_run eval_decode)
    show ?thesis
      by (simp only: r v option.simps comp_apply fst_conv snd_conv simp_thms)
  qed
  have two: "map_option (logins \<circ> snd) (uploadTheme expiring_env ?s) = Some 1"
  proof -
    let ?E = expiring_env
    define st1 where "st1 = snd (ensureAuth ?E False ?s)"
    define st2 where "st2 = snd (zipTheme ?E (emit (Sleep 500) st1))"
    define st3 where "st3 = emit (ThemesUpdate (xsrfToken st2) (cookie st2)) st2"
    define st4 where "st4 = snd (extractTokensFromCookies good_cookies st3)"
    have a: "ensureAuth ?E False ?s = (Inr (), st1)"
      unfolding st1_def
      by (simp add: expiring_env_def unknown_theme_env_def eval_run eval_decode)
    have b: "zipTheme ?E (emit (Sleep 500) st1) = (Inr (), st2)"
      unfolding st2_def st1_def
      by (simp add: expiring_env_def unknown_theme_env_def eval_run eval_decode)
    have c: "themes_update ?E (trace st3) = Reply 200 ?d"
      by (simp add: expiring_env_def unknown_theme_env_def)
    have l: "loadCookiesFromFile ?E st3 = Inr (Some good_cookies)"
      unfolding st3_def st2_def st1_def
      by (simp add: expiring_env_def unknown_theme_env_def eval_run eval_decode)
    have x: "extractTokensFromCookies good_cookies st3 = (Inr (), st4)"
      unfolding st4_def
      by (simp add: extractTokensFromCookies_def good_cookies_def decodeURIComponent_def
          eval_decode)
    have q: "account_get ?E (trace (emit (AccountGet (xsrfToken st4) (cookie st4)) st4))
        \<noteq> Reply 200 ()"
      unfolding st4_def st3_def st2_def st1_def
      by (simp add: expiring_env_def unknown_theme_env_def eval_run eval_decode)
    have z: "logins st3 = 0"
      unfolding st3_def st2_def st1_def
      by (simp add: expiring_env_def unknown_theme_env_def eval_run eval_decode)
    have n: "(200::nat) \<le> 200 \<and> (200::nat) < 300"
      by simp
    from theme_not_found_lists_and_stops [OF a b st3_def c d e] l x q n
    have "uploadTheme ?E ?s = Some (Inr (), snd (listThemes ?E st3))
        \<and> logins (snd (listThemes ?E st3)) = logins st3 + 1"
      by blast
    with z show ?thesis
      by simp
  qed
  have three: "map_option (trace \<circ> snd) (uploadTheme not_found_404_env ?s)
       = Some [AccountGet (js ''abc'') (js ''XSRF-TOKEN=abc; session=xyz''), Sleep 500,
               RunArchiver, ThemesUpdate (js ''abc'') (js ''XSRF-TOKEN=abc; session=xyz'')]"
  proof -
    let ?E = not_found_404_env
    define st1 where "st1 = snd (ensureAuth ?E False ?s)"
    define st2 where "st2 = snd (zipTheme ?E (emit (Sleep 500) st1))"
    define st3 where "st3 = emit (ThemesUpdate (xsrfToken st2) (cookie st2)) st2"
    have a: "ensureAuth ?E False ?s = (Inr (), st1)"
      unfolding st1_def by (simp add: not_found_404_env_def eval_run eval_decode)
    have b: "zipTheme ?E (emit (Sleep 500) st1) = (Inr (), st2)"
      unfolding st2_def st1_def by (simp add: not_found_404_env_def eval_run eval_decode)
    have c: "themes_update ?E (trace st3) = Reply 404 ?d"
      by (simp add: not_found_404_env_def)
    from theme_not_found_lists_and_stops [OF a b st3_def c d e]
    have r: "uploadTheme ?E ?s = Some (Inr (), st3)"
      by simp
    have v: "trace st3
       = [AccountGet (js ''abc'') (js ''XSRF-TOKEN=abc; session=xyz''), Sleep 500,
          RunArchiver, ThemesUpdate (js ''abc'') (js ''XSRF-TOKEN=abc; session=xyz'')]"
      unfolding st3_def st2_def st1_def
      by (simp add: not_found_404_env_def eval_run eval_decode)
    show ?thesis
      by (simp only: r v option.simps comp_apply snd_conv)
  qed
  from one two three show ?thesis
    by (simp only: simp_thms)
qed

text \<open>
  The specification excludes every re-login. When the session that passed the check at
  the start of the cycle fails the check that \<open>listThemes\<close> makes, the browser login
  runs, although the upload was sent once only.
\<close>

theorem later_probe_fails_counterexample:
  "map_option fst (uploadTheme expiring_env (init_state (Content (js ''cookies'')) False))
     = Some (Inr ())
   \<and> map_option (uploads \<circ> trace \<circ> snd)
        (uploadTheme expiring_env (init_state (Content (js ''cookies'')) False)) = Some 1
   \<and> map_option (logins \<circ> snd)
        (uploadTheme expiring_env (init_state (Content (js ''cookies'')) False)) = Some 1"
  by (simp add: uploadTheme.simps expiring_env_def unknown_theme_env_def eval_run eval_decode)

text \<open>
  C1, as the code has it: when the upload is answered with a status from 200 to 299 and
  a failure whose message does not contain the marker, \<open>uploadTheme\<close> deletes the
  snapshot if there is one; when the deletion does not throw it forces the login, and,
  the login done, calls itself again: the whole call is then the new call from the state
  after the login. Between the reply and the new call there is the deletion, one browser
  login and its write of the snapshot, and nothing else. When the deletion throws, the
  error is logged and the cycle ends there, with no login and no new call. The same
  failure with a status outside 200 to 299, other than 401, is caught and logged: the
  cycle ends where the upload was sent, with no deletion, no login and no new call.
\<close>

theorem refused_upload_relogin_and_retry:
  assumes "ensureAuth env False st = (Inr (), st1)"
    and "zipTheme env (emit (Sleep 500) st1) = (Inr (), st2)"
    and "st3 = emit (ThemesUpdate (xsrfToken st2) (cookie st2)) st2"
    and "themes_update env (trace st3) = Reply s d"
    and "\<not> is_success d"
    and "\<not> str_includes (errorMessage d) theme_not_found"
  shows "(200 \<le> s \<and> s < 300
        \<and> remove_cookies_file env st3 = (Inr (), st4)
        \<and> ensureAuth env True st4 = (Inr (), st5) \<longrightarrow>
       uploadTheme env st = uploadTheme env st5
       \<and> cookies_file st4 = Missing
       \<and> trace st4
           = trace st3 @ (if existsSync (cookies_file st3) then [UnlinkCookiesFile] else [])
       \<and> (\<exists>evs. trace st5 = trace st4 @ BrowserLogin # evs
              \<and> (\<forall>e \<in> set evs. \<exists>t. e = WriteCookiesFile t)))
     \<and> (200 \<le> s \<and> s < 300 \<and> remove_cookies_file env st3 = (Inl x, st4) \<longrightarrow>
       uploadTheme env st = Some (Inr (), st4)
       \<and> trace st4 = trace st3 @ [UnlinkCookiesFile]
       \<and> cookies_file st4 = cookies_file st3)
     \<and> (\<not> (200 \<le> s \<and> s < 300) \<and> s \<noteq> 401 \<longrightarrow> uploadTheme env st = Some (Inr (), st3))"
proof -
  have again: "uploadTheme env st = uploadTheme env st5
       \<and> cookies_file st4 = Missing
       \<and> trace st4
           = trace st3 @ (if existsSync (cookies_file st3) then [UnlinkCookiesFile] else [])
       \<and> (\<exists>evs. trace st5 = trace st4 @ BrowserLogin # evs
              \<and> (\<forall>e \<in> set evs. \<exists>t. e = WriteCookiesFile t))"
    if ok: "200 \<le> s \<and> s < 300" and rm: "remove_cookies_file env st3 = (Inr (), st4)"
      and li: "ensureAuth env True st4 = (Inr (), st5)"
  proof (intro conjI)
    from ok upload_try_refused [OF assms(1-4) _ _ assms(5)] assms(6) rm li
    have "upload_body env st = (Inr Again, st5)"
      by (simp add: upload_body_def)
    then show "uploadTheme env st = uploadTheme env st5"
      by (subst uploadTheme.simps) simp
  next
    from rm show "cookies_file st4 = Missing"
      by (auto simp: remove_cookies_file_def existsSync_def Let_def
          split: if_splits option.splits)
  next
    from rm
    show "trace st4
        = trace st3 @ (if existsSync (cookies_file st3) then [UnlinkCookiesFile] else [])"
      by (auto simp: remove_cookies_file_def emit_def Let_def split: if_splits option.splits)
  next
    from li have "performLoginWithPuppeteer env st4 = (Inr (), st5)"
      by (simp add: ensureAuth_def)
    with performLogin_trace [of env st4]
    show "\<exists>evs. trace st5 = trace st4 @ BrowserLogin # evs
              \<and> (\<forall>e \<in> set evs. \<exists>t. e = WriteCookiesFile t)"
      by simp
  qed
  have stuck: "uploadTheme env st = Some (Inr (), st4)
       \<and> trace st4 = trace st3 @ [UnlinkCookiesFile]
       \<and> cookies_file st4 = cookies_file st3"
    if ok: "200 \<le> s \<and> s < 300" and rm: "remove_cookies_file env st3 = (Inl x, st4)"
  proof -
    from remove_cookies_file_error [OF rm] obtain code where x: "x = FsError code"
      and t: "trace st4 = trace st3 @ [UnlinkCookiesFile]"
      and f: "cookies_file st4 = cookies_file st3"
      by blast
    from ok upload_try_refused [OF assms(1-4) _ _ assms(5)] assms(6) rm x
    have "upload_body env st = (Inr Finished, st4)"
      by (simp add: upload_body_def upload_catch_def)
    then have "uploadTheme env st = Some (Inr (), st4)"
      by (subst uploadTheme.simps) simp
    with t f show ?thesis
      by simp
  qed
  have caught: "uploadTheme env st = Some (Inr (), st3)"
    if "\<not> (200 \<le> s \<and> s < 300) \<and> s \<noteq> 401"
  proof -
    from that upload_body_rejected [OF assms(1-4)]
    have "upload_body env st = (Inr Finished, st3)"
      by simp
    then show ?thesis
      by (subst uploadTheme.simps) simp
  qed
  from again stuck caught show ?thesis
    by blast
qed

theorem refused_upload_relogin_and_retry_witness:
  "map_option fst (uploadTheme refusing_once_env (init_state (Content (js ''cookies'')) False))
     = Some (Inr ())
   \<and> map_option (uploads \<circ> trace \<circ> snd)
        (uploadTheme refusing_once_env (init_state (Content (js ''cookies'')) False)) = Some 2
   \<and> map_option (logins \<circ> snd)
        (uploadTheme refusing_once_env (init_state (Content (js ''cookies'')) False)) = Some 1
   \<and> map_option (trace \<circ> snd)
        (uploadTheme locked_snapshot_env (init_state (Content (js ''cookies'')) False))
       = Some [AccountGet (js ''abc'') (js ''XSRF-TOKEN=abc; session=xyz''), Sleep 500,
               RunArchiver, ThemesUpdate (js ''abc'') (js ''XSRF-TOKEN=abc; session=xyz''),
               UnlinkCookiesFile]
   \<and> map_option (trace \<circ> snd)
        (uploadTheme unprocessable_env (init_state (Content (js ''cookies'')) False))
       = Some [AccountGet (js ''abc'') (js ''XSRF-TOKEN=abc; session=xyz''), Sleep 500,
               RunArchiver, ThemesUpdate (js ''abc'') (js ''XSRF-TOKEN=abc; session=xyz'')]"
proof -
  let ?s = "init_state (Content (js ''cookies'')) False"
  let ?d = "Data (Some (js ''fail'')) (Some (js ''other''))"
  have d: "\<not> is_success ?d"
    by (simp add: is_success_def js_def)
  have e: "\<not> str_includes (errorMessage ?d) theme_not_found"
    by (simp add: errorMessage_def theme_not_found_def js_def)
  have n: "(200::nat) \<le> 200 \<and> (200::nat) < 300"
    by simp
  have one: "map_option fst (uploadTheme refusing_once_env ?s) = Some (Inr ())
    \<and> map_option (uploads \<circ> trace \<circ> snd) (uploadTheme refusing_once_env ?s) = Some 2
    \<and> map_option (logins \<circ> snd) (uploadTheme refusing_once_env ?s) = Some 1"
  proof -
    let ?E = refusing_once_env
    define st1 where "st1 = snd (ensureAuth ?E False ?s)"
    define st2 where "st2 = snd (zipTheme ?E (emit (Sleep 500) st1))"
    define st3 where "st3 = emit (ThemesUpdate (xsrfToken st2) (cookie st2)) st2"
    define st4 where "st4 = snd (remove_cookies_file ?E st3)"
    define st5 where "st5 = snd (ensureAuth ?E True st4)"
    have a: "ensureAuth ?E False ?s = (Inr (), st1)"
      unfolding st1_def by (simp add: refusing_once_env_def eval_run eval_decode)
    have b: "zipTheme ?E (emit (Sleep 500) st1) = (Inr (), st2)"
      unfolding st2_def st1_def by (simp add: refusing_once_env_def eval_run eval_decode)
    have c: "themes_update ?E (trace st3) = Reply 200 ?d"
      unfolding st3_def st2_def st1_def
      by (simp add: refusing_once_env_def eval_run eval_decode)
    have f: "remove_cookies_file ?E st3 = (Inr (), st4)"
      unfolding st4_def st3_def st2_def st1_def
      by (simp add: refusing_once_env_def eval_run eval_decode)
    have g: "ensureAuth ?E True st4 = (Inr (), st5)"
      unfolding st5_def st4_def st3_def st2_def st1_def
      by (simp add: refusing_once_env_def eval_run eval_decode)
    from refused_upload_relogin_and_retry [OF a b st3_def c d e, of st4 st5] n f g
    have r: "uploadTheme ?E ?s = uploadTheme ?E st5"
      by blast
    have v: "map_option fst (uploadTheme ?E st5) = Some (Inr ())"
      "map_option (uploads \<circ> trace \<circ> snd) (uploadTheme ?E st5) = Some 2"
      "map_option (logins \<circ> snd) (uploadTheme ?E st5) = Some 1"
      unfolding st5_def st4_def st3_def st2_def st1_def
      by (simp_all add: uploadTheme.simps refusing_once_env_def eval_run eval_decode)
    show ?thesis
      by (simp only: r v simp_thms)
  qed
  have two: "map_option (trace \<circ> snd) (uploadTheme locked_snapshot_env ?s)
       = Some [AccountGet (js ''abc'') (js ''XSRF-TOKEN=abc; session=xyz''), Sleep 500,
               RunArchiver, ThemesUpdate (js ''abc'') (js ''XSRF-TOKEN=abc; session=xyz''),
               UnlinkCookiesFile]"
  proof -
    let ?E = locked_snapshot_env
    define st1 where "st1 = snd (ensureAuth ?E False ?s)"
    define st2 where "st2 = snd (zipTheme ?E (emit (Sleep 500) st1))"
    define st3 where "st3 = emit (ThemesUpdate (xsrfToken st2) (cookie st2)) st2"
    define st4 where "st4 = snd (remove_cookies_file ?E st3)"
    have a: "ensureAuth ?E False ?s = (Inr (), st1)"
      unfolding st1_def
      by (simp add: locked_snapshot_env_def refusing_once_env_def eval_run eval_decode)
    have b: "zipTheme ?E (emit (Sleep 500) st1) = (Inr (), st2)"
      unfolding st2_def st1_def
      by (simp add: locked_snapshot_env_def refusing_once_env_def eval_run eval_decode)
    have c: "themes_update ?E (trace st3) = Reply 200 ?d"
      unfolding st3_def st2_def st1_def
      by (simp add: locked_snapshot_env_def refusing_once_env_def eval_run eval_decode)
    have f: "remove_cookies_file ?E st3 = (Inl (FsError (js ''EPERM'')), st4)"
      unfolding st4_def st3_def st2_def st1_def
      by (simp add: locked_snapshot_env_def refusing_once_env_def eval_run eval_decode)
    from refused_upload_relogin_and_retry [OF a b st3_def c d e, of st4 _ "FsError (js ''EPERM'')"]
      n f
    have r: "uploadTheme ?E ?s = Some (Inr (), st4)"
      by blast
    have v: "trace st4
       = [AccountGet (js ''abc'') (js ''XSRF-TOKEN=abc; session=xyz''), Sleep 500,
          RunArchiver, ThemesUpdate (js ''abc'') (js ''XSRF-TOKEN=abc; session=xyz''),
          UnlinkCookiesFile]"
      unfolding st4_def st3_def st2_def st1_def
      by (simp add: locked_snapshot_env_def refusing_once_env_def eval_run eval_decode)
    show ?thesis
      by (simp only: r v option.simps comp_apply snd_conv)
  qed
  have three: "map_option (trace \<circ> snd) (uploadTheme unprocessable_env ?s)
       = Some [AccountGet (js ''abc'') (js ''XSRF-TOKEN=abc; session=xyz''), Sleep 500,
               RunArchiver, ThemesUpdate (js ''abc'') (js ''XSRF-TOKEN=abc; session=xyz'')]"
  proof -
    let ?E = unprocessable_env
    define st1 where "st1 = snd (ensureAuth ?E False ?s)"
    define st2 where "st2 = snd (zipTheme ?E (emit (Sleep 500) st1))"
    define st3 where "st3 = emit (ThemesUpdate (xsrfToken st2) (cookie st2)) st2"
    have a: "ensureAuth ?E False ?s = (Inr (), st1)"
      unfolding st1_def by (simp add: unprocessable_env_def eval_run eval_decode)
    have b: "zipTheme ?E (emit (Sleep 500) st1) = (Inr (), st2)"
      unfolding st2_def st1_def by (simp add: unprocessable_env_def eval_run eval_decode)
    have c: "themes_update ?E (trace st3) = Reply 422 ?d"
      by (simp add: unprocessable_env_def)
    from refused_upload_relogin_and_retry [OF a b st3_def c d e]
    have r: "uploadTheme ?E ?s = Some (Inr (), st3)"
      by simp
    have v: "trace st3
       = [AccountGet (js ''abc'') (js ''XSRF-TOKEN=abc; session=xyz''), Sleep 500,
          RunArchiver, ThemesUpdate (js ''abc'') (js ''XSRF-TOKEN=abc; session=xyz'')]"
      unfolding st3_def st2_def st1_def
      by (simp add: unprocessable_env_def eval_run eval_decode)
    show ?thesis
      by (simp only: r v option.simps comp_apply snd_conv)
  qed
  from one two three show ?thesis
    by (simp only: simp_thms)
qed

text \<open>
  The specification has a single retried upload. The new call treats its own reply the
  way the first did: a server that refuses twice is sent the upload three times.
\<close>

theorem third_upload_counterexample:
  "map_option fst (uploadTheme refusing_twice_env (init_state (Content (js ''cookies'')) False))
     = Some (Inr ())
   \<and> map_option (uploads \<circ> trace \<circ> snd)
        (uploadTheme refusing_twice_env (init_state (Content (js ''cookies'')) False)) = Some 3"
  by (simp add: uploadTheme.simps refusing_twice_env_def eval_run eval_decode)

section \<open>Properties of the change watcher\<close>

text \<open>Without a live timer and without a new raw event, no cycle starts and none is skipped.\<close>

lemma run_without_timer:
  assumes "uploadTimeout w = None"
    and "\<forall>e \<in> set es. \<not> is_raw e"
    and "run w es = Some w'"
  shows "cycles w' = cycles w \<and> skipped w' = skipped w"
  using assms
proof (induction es arbitrary: w)
  case Nil
  then show ?case by simp
next
  case (Cons e es)
  show ?case
  proof (cases e)
    case (RawEvent t)
    with Cons.prems(2) show ?thesis by (simp add: is_raw_def)
  next
    case (TimerFires t)
    with Cons.prems(1,3) show ?thesis by simp
  next
    case (UploadSettles t)
    with Cons.prems(3) have r: "run (on_settled t w) es = Some w'"
      by (auto split: if_splits)
    from Cons.prems(1) have "uploadTimeout (on_settled t w) = None"
      by (simp add: on_settled_def)
    from Cons.IH [OF this _ r] Cons.prems(2) show ?thesis
      by (simp add: on_settled_def)
  qed
qed

text \<open>
  C3, as the code has it: every raw event restarts the one-second timer, whether an upload
  is in flight or not and whether a timer is pending or not, and changes nothing else.
  When the timer fires during the upload, the cycle is skipped and nothing is deferred:
  until a new raw event arrives no cycle starts, whatever else happens (the upload
  settling among it); when it fires with no upload in flight, it starts a cycle. So a raw
  event that arrives during the upload, with the upload settling before the timer of that
  event fires, starts a cycle one second after the event, and no raw event has arrived
  since the upload settled.
\<close>

theorem debounce_timer_and_upload_in_flight:
  "(step w (RawEvent u) = Some w1 \<longrightarrow>
      uploadTimeout w1 = Some (u + 1000) \<and> uploadInProgress w1 = uploadInProgress w
      \<and> cycles w1 = cycles w \<and> skipped w1 = skipped w)
   \<and> (run w (TimerFires t # es) = Some w' \<and> (\<forall>e \<in> set es. \<not> is_raw e) \<longrightarrow>
      (uploadInProgress w \<longrightarrow> cycles w' = cycles w \<and> skipped w' = skipped w @ [t])
      \<and> (\<not> uploadInProgress w \<longrightarrow> cycles w' = cycles w @ [t] \<and> skipped w' = skipped w))
   \<and> (uploadInProgress w
       \<and> run w (RawEvent u # UploadSettles v # TimerFires t # es) = Some w'
       \<and> (\<forall>e \<in> set es. \<not> is_raw e) \<longrightarrow>
      u \<le> v \<and> v \<le> t \<and> t = u + 1000 \<and> cycles w' = cycles w @ [t] \<and> skipped w' = skipped w)"
proof -
  have one: "uploadTimeout w1 = Some (u + 1000) \<and> uploadInProgress w1 = uploadInProgress w
      \<and> cycles w1 = cycles w \<and> skipped w1 = skipped w"
    if "step w (RawEvent u) = Some w1"
  proof -
    from that have "w1 = on_all u w"
      by (auto split: if_splits)
    then show ?thesis
      by (simp add: on_all_def)
  qed
  have two: "(uploadInProgress w \<longrightarrow> cycles w' = cycles w \<and> skipped w' = skipped w @ [t])
      \<and> (\<not> uploadInProgress w \<longrightarrow> cycles w' = cycles w @ [t] \<and> skipped w' = skipped w)"
    if "run w (TimerFires t # es) = Some w'" and e: "\<forall>e \<in> set es. \<not> is_raw e"
  proof -
    from that(1) have r: "run (on_timeout t w) es = Some w'"
      by (auto split: if_splits)
    have n: "uploadTimeout (on_timeout t w) = None"
      by (simp add: on_timeout_def)
    from run_without_timer [OF n e r] show ?thesis
      by (simp add: on_timeout_def)
  qed
  have three: "u \<le> v \<and> v \<le> t \<and> t = u + 1000 \<and> cycles w' = cycles w @ [t]
      \<and> skipped w' = skipped w"
    if p: "uploadInProgress w"
      and r: "run w (RawEvent u # UploadSettles v # TimerFires t # es) = Some w'"
      and e: "\<forall>e \<in> set es. \<not> is_raw e"
  proof -
    let ?w1 = "on_all u w"
    let ?w2 = "on_settled v ?w1"
    let ?w3 = "on_timeout t ?w2"
    from r have r1: "run ?w1 (UploadSettles v # TimerFires t # es) = Some w'"
      by (auto split: if_splits)
    then have v: "not_overdue ?w1 v" and r2: "run ?w2 (TimerFires t # es) = Some w'"
      by (auto split: if_splits)
    from r2 have t: "uploadTimeout ?w2 = Some t" and r3: "run ?w3 es = Some w'"
      by (auto split: if_splits)
    from t have t': "t = u + 1000"
      by (simp add: on_settled_def on_all_def)
    from v have uv: "u \<le> v \<and> v \<le> u + 1000"
      by (simp add: not_overdue_def on_all_def)
    have n: "uploadTimeout ?w3 = None"
      by (simp add: on_timeout_def)
    from run_without_timer [OF n e r3]
    have "cycles w' = cycles w @ [t] \<and> skipped w' = skipped w"
      by (simp add: on_timeout_def on_settled_def on_all_def)
    with t' uv show ?thesis
      by simp
  qed
  from one two three show ?thesis
    by blast
qed

theorem debounce_timer_and_upload_in_flight_witness:
  "map_option uploadTimeout
     (step \<lparr>uploadTimeout = Some 1000, uploadInProgress = True, cycles = [100], skipped = [],
        now = 200\<rparr> (RawEvent 500)) = Some (Some 1500)
   \<and> run watch_init [RawEvent 0, RawEvent 500, TimerFires 1000] = None
   \<and> map_option cycles
     (run watch_init [RawEvent 0, TimerFires 1000, RawEvent 1500, TimerFires 2500,
        UploadSettles 3000]) = Some [1000]
   \<and> map_option skipped
     (run watch_init [RawEvent 0, TimerFires 1000, RawEvent 1500, TimerFires 2500,
        UploadSettles 3000]) = Some [2500]
   \<and> map_option cycles (run watch_init [RawEvent 0, TimerFires 1000]) = Some [1000]
   \<and> map_option cycles
     (run watch_init [RawEvent 0, TimerFires 1000, RawEvent 1200, UploadSettles 2000,
        TimerFires 2200]) = Some [1000, 2200]"
proof -
  let ?p = "\<lparr>uploadTimeout = Some 1000, uploadInProgress = True, cycles = [100], skipped = [],
    now = 200\<rparr>"
  let ?w = "\<lparr>uploadTimeout = Some 2500, uploadInProgress = True, cycles = [1000], skipped = [],
    now = 1500\<rparr>"
  let ?v = "\<lparr>uploadTimeout = Some 1000, uploadInProgress = False, cycles = [], skipped = [],
    now = 0\<rparr>"
  let ?u = "\<lparr>uploadTimeout = None, uploadInProgress = True, cycles = [1000], skipped = [],
    now = 1000\<rparr>"
  obtain p1 where p: "step ?p (RawEvent 500) = Some p1"
    by (simp add: not_overdue_def)
  from debounce_timer_and_upload_in_flight [where w = ?p and u = 500 and ?w1.0 = p1] p
  have one: "map_option uploadTimeout (step ?p (RawEvent 500)) = Some (Some 1500)"
    by simp
  have two: "run watch_init [RawEvent 0, RawEvent 500, TimerFires 1000] = None"
    by (simp add: watch_init_def not_overdue_def on_all_def)
  have a: "run watch_init [RawEvent 0, TimerFires 1000, RawEvent 1500, TimerFires 2500,
        UploadSettles 3000] = run ?w [TimerFires 2500, UploadSettles 3000]"
    by (simp add: watch_init_def not_overdue_def on_all_def on_timeout_def)
  obtain w' where b: "run ?w [TimerFires 2500, UploadSettles 3000] = Some w'"
    by (simp add: not_overdue_def on_timeout_def on_settled_def)
  have c: "\<forall>e \<in> set [UploadSettles 3000]. \<not> is_raw e"
    by (simp add: is_raw_def)
  from debounce_timer_and_upload_in_flight [where w = ?w and t = 2500 and es = "[UploadSettles 3000]"
    and w' = w'] b c
  have three: "cycles w' = [1000] \<and> skipped w' = [2500]"
    by simp
  have d: "run watch_init [RawEvent 0, TimerFires 1000] = run ?v [TimerFires 1000]"
    by (simp add: watch_init_def not_overdue_def on_all_def)
  obtain v' where e: "run ?v [TimerFires 1000] = Some v'"
    by (simp add: not_overdue_def on_timeout_def)
  from debounce_timer_and_upload_in_flight [where w = ?v and t = 1000 and es = "[]" and w' = v'] e
  have four: "cycles v' = [1000]"
    by simp
  have f: "run watch_init [RawEvent 0, TimerFires 1000, RawEvent 1200, UploadSettles 2000,
        TimerFires 2200] = run ?u [RawEvent 1200, UploadSettles 2000, TimerFires 2200]"
    by (simp add: watch_init_def not_overdue_def on_all_def on_timeout_def)
  obtain u' where g: "run ?u [RawEvent 1200, UploadSettles 2000, TimerFires 2200] = Some u'"
    by (simp add: not_overdue_def on_all_def on_timeout_def on_settled_def)
  from debounce_timer_and_upload_in_flight [where w = ?u and u = 1200 and v = 2000 and t = 2200
    and es = "[]" and w' = u'] g
  have five: "cycles u' = [1000, 2200]"
    by simp
  from one two three four five a b d e f g show ?thesis
    by simp
qed

text \<open>
  The specification has no cycle after the upload in flight unless a raw event arrives
  after its end. A raw event at 2500 ms, during the upload that started at 1000 ms and
  settles at 3000 ms, has its timer fire at 3500 ms: a second cycle starts then, and no
  raw event has arrived since the upload settled.
\<close>

theorem late_event_counterexample:
  "map_option cycles
     (run watch_init [RawEvent 0, TimerFires 1000, RawEvent 2500, UploadSettles 3000,
        TimerFires 3500]) = Some [1000, 3500]
   \<and> map_option skipped
     (run watch_init [RawEvent 0, TimerFires 1000, RawEvent 2500, UploadSettles 3000,
        TimerFires 3500]) = Some []"
  by (simp add: watch_init_def not_overdue_def on_all_def on_timeout_def on_settled_def)

section \<open>Properties of the start\<close>

text \<open>
  C8, as the code has it: when a required key (\<open>ZID_EMAIL\<close>, \<open>ZID_PASSWORD\<close>, and for
  the sync tool \<open>THEME_ID\<close>) is unset or is the empty string, the script exits with
  code 1 and has run nothing before; an unset key is one case of that. When every required
  key is a non-empty string, the script goes on.
\<close>

theorem startup_check:
  "(falsy (ZID_EMAIL c) \<or> falsy (ZID_PASSWORD c) \<or> falsy (THEME_ID c)
      \<longrightarrow> sync_startup c st = (Exit 1, st))
   \<and> (falsy (ZID_EMAIL c) \<or> falsy (ZID_PASSWORD c)
      \<longrightarrow> list_startup c st = (Exit 1, st))
   \<and> (ZID_EMAIL c = None \<or> ZID_PASSWORD c = None \<or> THEME_ID c = None
      \<longrightarrow> fst (sync_startup c st) = Exit 1 \<and> trace (snd (sync_startup c st)) = trace st)
   \<and> (ZID_EMAIL c = None \<or> ZID_PASSWORD c = None
      \<longrightarrow> fst (list_startup c st) = Exit 1 \<and> trace (snd (list_startup c st)) = trace st)
   \<and> (\<forall>e p t. ZID_EMAIL c = Some e \<and> e \<noteq> [] \<and> ZID_PASSWORD c = Some p \<and> p \<noteq> []
         \<and> THEME_ID c = Some t \<and> t \<noteq> []
      \<longrightarrow> sync_startup c st = (Continue, st))
   \<and> (\<forall>e p. ZID_EMAIL c = Some e \<and> e \<noteq> [] \<and> ZID_PASSWORD c = Some p \<and> p \<noteq> []
      \<longrightarrow> list_startup c st = (Continue, st))"
  by (auto simp: sync_startup_def list_startup_def falsy_def)

theorem startup_check_witness:
  "sync_startup (full_config\<lparr>ZID_EMAIL := None\<rparr>) (init_state Missing False)
     = (Exit 1, init_state Missing False)
   \<and> list_startup (full_config\<lparr>ZID_PASSWORD := None\<rparr>) (init_state Missing False)
     = (Exit 1, init_state Missing False)
   \<and> sync_startup full_config (init_state Missing False) = (Continue, init_state Missing False)
   \<and> list_startup (full_config\<lparr>THEME_ID := None\<rparr>) (init_state Missing False)
     = (Continue, init_state Missing False)"
  using startup_check [of "full_config\<lparr>ZID_EMAIL := None\<rparr>" "init_state Missing False"]
    startup_check [of "full_config\<lparr>ZID_PASSWORD := None\<rparr>" "init_state Missing False"]
    startup_check [of full_config "init_state Missing False"]
    startup_check [of "full_config\<lparr>THEME_ID := None\<rparr>" "init_state Missing False"]
  by (simp add: full_config_def falsy_def js_def)

text \<open>
  The specification lets the start go on when every required key is set. A key that is
  set to the empty string is falsy in the check, and the script exits with code 1.
\<close>

theorem empty_email_counterexample:
  "ZID_EMAIL (full_config\<lparr>ZID_EMAIL := Some []\<rparr>) = Some []
   \<and> ZID_PASSWORD (full_config\<lparr>ZID_EMAIL := Some []\<rparr>) = Some (js ''secret'')
   \<and> THEME_ID (full_config\<lparr>ZID_EMAIL := Some []\<rparr>) = Some (js ''42'')
   \<and> sync_startup (full_config\<lparr>ZID_EMAIL := Some []\<rparr>) (init_state Missing False)
     = (Exit 1, init_state Missing False)
   \<and> list_startup (full_config\<lparr>ZID_EMAIL := Some []\<rparr>) (init_state Missing False)
     = (Exit 1, init_state Missing False)"
  by (simp add: sync_startup_def list_startup_def full_config_def falsy_def)

end
